theory Spec2Isabelle
  imports Complex_Main
begin

section \<open>bitcoin-intel: the aggregation and normalisation core of \<^verbatim>\<open>src/index.ts\<close>\<close>

text \<open>
  The six query handlers of \<^verbatim>\<open>src/index.ts\<close> are embedded as HOL functions.
  \<^item> An upstream HTTP exchange is a value of type \<open>'a reply\<close>; \<open>fetchJSON\<close> turns it into
    \<open>error + 'a\<close>, so every \<^verbatim>\<open>throw\<close> of the source is an \<open>Inl\<close> branch.
  \<^item> Upstream JSON bodies are records with the fields the handlers read. A field the source
    guards (\<^verbatim>\<open>?.\<close>, \<^verbatim>\<open>||\<close>, a truthiness test) is an \<open>option\<close>; an unguarded field is
    required by the record type.
  \<^item> JavaScript numbers are modelled exactly: integer quantities (satoshis, counts, heights,
    Unix seconds, milliseconds) as \<open>int\<close>, quotients and prices as \<open>rat\<close>. The handlers do
    not round to binary64; integer \<^verbatim>\<open>+\<close> and \<^verbatim>\<open>-\<close> agree with the model up to \<open>2^53\<close>. The
    last section proves, in the ranges stated there, that the rounded quotients give the
    same coin amounts and recency verdicts, and fee rates and block times that are still
    nearest decimals of the exact value; at a decimal tie the text of the rounded number can
    be the neighbour below the one of the exact number (\<^verbatim>\<open>(3 / 40).toFixed(2)\<close> is
    \<^verbatim>\<open>0.07\<close>); both are nearest decimals. Division by zero yields the
    non-finite values of type \<open>number\<close>; the sign of a zero divisor is not modelled.
  \<^item> The fetches of a \<^verbatim>\<open>Promise.all\<close> run concurrently. A handler invocation receives the
    instants at which they settle, \<open>settled i\<close> for the \<open>i\<close>-th promise of the call: when
    several fetches fail, the rejection that settles first is the error of the handler.
  \<^item> \<^verbatim>\<open>Date.now()\<close> and \<^verbatim>\<open>new Date()\<close> read a clock. A handler invocation receives the
    sequence of readings it will see, \<open>clock k\<close> being its \<open>k\<close>-th reading (milliseconds).
  \<^item> \<^verbatim>\<open>new Date(ms).toISOString()\<close> is kept symbolic: \<open>ISO ms\<close> stands for the ISO-8601
    text of the instant \<open>ms\<close>, for instants in the range of a JavaScript \<^verbatim>\<open>Date\<close>.
\<close>

subsection \<open>Errors and \<^verbatim>\<open>fetchJSON\<close>\<close>

datatype error =
    ApiError int      \<comment> \<open>\<^verbatim>\<open>throw new Error(`API error: ${response.status}`)\<close>\<close>
  | TransportError    \<comment> \<open>\<^verbatim>\<open>fetch\<close> rejected\<close>
  | ParseError        \<comment> \<open>\<^verbatim>\<open>response.json()\<close> rejected\<close>
  | TypeError         \<comment> \<open>a property read on \<^verbatim>\<open>undefined\<close>\<close>

text \<open>What one HTTP GET can bring back: no response at all, or a status with a body that
  parses as JSON of the expected shape (\<open>Some\<close>) or does not parse (\<open>None\<close>).\<close>

datatype 'a reply = NoResponse | Response int "'a option"

text \<open>\<^verbatim>\<open>response.ok\<close> is true for the statuses 200 to 299.\<close>

fun fetchJSON :: "'a reply \<Rightarrow> error + 'a" where
  "fetchJSON NoResponse = Inl TransportError"
| "fetchJSON (Response status body) =
     (if \<not> (200 \<le> status \<and> status \<le> 299) then Inl (ApiError status)
      else case body of None \<Rightarrow> Inl ParseError | Some v \<Rightarrow> Inr v)"

text \<open>\<^verbatim>\<open>Promise.all\<close> over three promises: it fulfils with the three values when all of
  them fulfil, and rejects with the reason of the promise that rejects first in time.
  \<open>settled i\<close> is the instant at which the \<open>i\<close>-th promise settles. Two promises do not
  settle at the same instant; for equal instants the earlier promise of the array is taken.\<close>

type_synonym timing = "nat \<Rightarrow> nat"

fun promise_all3 ::
  "timing \<Rightarrow> error + 'a \<Rightarrow> error + 'b \<Rightarrow> error + 'c \<Rightarrow> error + ('a \<times> 'b \<times> 'c)" where
  "promise_all3 settled (Inr a) (Inr b) (Inr c) = Inr (a, b, c)"
| "promise_all3 settled (Inl e0) (Inr b) (Inr c) = Inl e0"
| "promise_all3 settled (Inr a) (Inl e1) (Inr c) = Inl e1"
| "promise_all3 settled (Inr a) (Inr b) (Inl e2) = Inl e2"
| "promise_all3 settled (Inl e0) (Inl e1) (Inr c) = Inl (if settled 1 < settled 0 then e1 else e0)"
| "promise_all3 settled (Inl e0) (Inr b) (Inl e2) = Inl (if settled 2 < settled 0 then e2 else e0)"
| "promise_all3 settled (Inr a) (Inl e1) (Inl e2) = Inl (if settled 2 < settled 1 then e2 else e1)"
| "promise_all3 settled (Inl e0) (Inl e1) (Inl e2) =
     Inl (if settled 2 < settled 0 \<and> settled 2 < settled 1 then e2
          else if settled 1 < settled 0 then e1 else e0)"

text \<open>\<^verbatim>\<open>promise.catch(() => d)\<close>: any rejection is replaced by the default.\<close>

fun catch_default :: "'a \<Rightarrow> error + 'a \<Rightarrow> error + 'a" where
  "catch_default d (Inl e) = Inr d"
| "catch_default d (Inr v) = Inr v"

subsection \<open>Numbers and their text\<close>

datatype number = Num rat | PosInfinity | NegInfinity | NaN

text \<open>\<^verbatim>\<open>a / b\<close> on finite operands.\<close>

definition js_divide :: "rat \<Rightarrow> rat \<Rightarrow> number" where
  "js_divide a b =
     (if b = 0 then (if a = 0 then NaN else if 0 < a then PosInfinity else NegInfinity)
      else Num (a / b))"

definition digit_char :: "nat \<Rightarrow> char" where
  "digit_char d = ''0123456789'' ! d"

text \<open>The digits of the decimal representation of a natural number.\<close>

fun show_nat :: "nat \<Rightarrow> string" where
  "show_nat n = (if n < 10 then [digit_char n] else show_nat (n div 10) @ [digit_char (n mod 10)])"

declare show_nat.simps [simp del]

text \<open>An integer inside a template literal.\<close>

definition show_int :: "int \<Rightarrow> string" where
  "show_int i = (if i < 0 then ''-'' @ show_nat (nat (- i)) else show_nat (nat i))"

text \<open>\<^verbatim>\<open>Number.prototype.toFixed(f)\<close> on a finite \<open>x\<close> below \<open>10^21\<close>, step by step as
  ECMAScript gives it: the sign is split off, \<open>n\<close> is the integer nearest to \<open>x * 10^f\<close>
  (the larger one on a tie), its digits are padded on the left to \<open>f + 1\<close> characters and
  the point is placed before the last \<open>f\<close>.\<close>

definition toFixed_digits :: "nat \<Rightarrow> rat \<Rightarrow> nat" where
  "toFixed_digits f x = nat \<lfloor>x * 10 ^ f + 1 / 2\<rfloor>"

definition place_point :: "nat \<Rightarrow> string \<Rightarrow> string" where
  "place_point f m0 =
     (if f \<noteq> 0 then
        (let k = length m0;
             m = (if k \<le> f then replicate (f + 1 - k) (CHR ''0'') @ m0 else m0);
             k = (if k \<le> f then f + 1 else k)
         in take (k - f) m @ ''.'' @ drop (k - f) m)
      else m0)"

definition toFixed_finite :: "nat \<Rightarrow> rat \<Rightarrow> string" where
  "toFixed_finite f x0 =
     (let s = (if x0 < 0 then ''-'' else []);
          x = (if x0 < 0 then - x0 else x0);
          n = toFixed_digits f x;
          m = (if n = 0 then ''0'' else show_nat n)
      in s @ place_point f m)"

fun toFixed :: "nat \<Rightarrow> number \<Rightarrow> string" where
  "toFixed f (Num x) = toFixed_finite f x"
| "toFixed f PosInfinity = ''Infinity''"
| "toFixed f NegInfinity = ''-Infinity''"
| "toFixed f NaN = ''NaN''"

text \<open>\<^verbatim>\<open>Math.ceil\<close> and \<^verbatim>\<open>Math.round\<close> (which rounds a tie upwards).\<close>

definition math_ceil :: "rat \<Rightarrow> int" where
  "math_ceil x = \<lceil>x\<rceil>"

definition math_round :: "rat \<Rightarrow> int" where
  "math_round x = \<lfloor>x + 1 / 2\<rfloor>"

text \<open>\<^verbatim>\<open>function satsToBtc(sats) { return (sats / 100_000_000).toFixed(8); }\<close>\<close>

definition satsToBtc :: "int \<Rightarrow> string" where
  "satsToBtc sats = toFixed 8 (Num (of_int sats / 100000000))"

text \<open>\<^verbatim>\<open>xs.slice(0, end)\<close> for an integer \<open>end\<close>: a negative \<open>end\<close> counts from the back.\<close>

definition slice0 :: "int \<Rightarrow> 'a list \<Rightarrow> 'a list" where
  "slice0 end xs =
     (let len = int (length xs);
          final = (if end < 0 then max (len + end) 0 else min end len)
      in take (nat final) xs)"

subsection \<open>Reading decimal text\<close>

text \<open>The number a decimal text denotes. These functions are not part of the program:
  they say what the strings produced by \<open>toFixed\<close> mean.\<close>

definition digit_val :: "char \<Rightarrow> nat" where
  "digit_val c = of_char c - 48"

definition digits_val :: "string \<Rightarrow> nat" where
  "digits_val s = foldl (\<lambda>a c. 10 * a + digit_val c) 0 s"

definition int_part :: "string \<Rightarrow> string" where
  "int_part s = takeWhile (\<lambda>c. c \<noteq> CHR ''.'') s"

definition frac_part :: "string \<Rightarrow> string" where
  "frac_part s = drop 1 (dropWhile (\<lambda>c. c \<noteq> CHR ''.'') s)"

definition unsigned_value :: "string \<Rightarrow> rat" where
  "unsigned_value s =
     of_nat (digits_val (int_part s)) + of_nat (digits_val (frac_part s)) / 10 ^ length (frac_part s)"

fun decimal_value :: "string \<Rightarrow> rat" where
  "decimal_value [] = 0"
| "decimal_value (c # s) = (if c = CHR ''-'' then - unsigned_value s else unsigned_value (c # s))"


subsection \<open>Truthiness\<close>

text \<open>A guarded optional number is used only when it is present and not zero, a guarded
  optional string only when it is present and not empty (\<^verbatim>\<open>x ? .. : ..\<close>, \<^verbatim>\<open>x || d\<close>,
  \<^verbatim>\<open>x && ..\<close>, \<^verbatim>\<open>.filter(Boolean)\<close>).\<close>

fun truthy_int :: "int option \<Rightarrow> int option" where
  "truthy_int None = None"
| "truthy_int (Some v) = (if v = 0 then None else Some v)"

fun truthy_string :: "string option \<Rightarrow> string option" where
  "truthy_string None = None"
| "truthy_string (Some s) = (if s = [] then None else Some s)"

subsection \<open>Time\<close>

type_synonym clock = "nat \<Rightarrow> int"

datatype isotime = ISO int  \<comment> \<open>\<^verbatim>\<open>new Date(ms).toISOString()\<close>\<close>

subsection \<open>Upstream bodies\<close>

record fee_recommendation =  \<comment> \<open>mempool.space \<^verbatim>\<open>/api/v1/fees/recommended\<close>\<close>
  fastestFee :: int
  halfHourFee :: int
  hourFee :: int
  economyFee :: int
  minimumFee :: int

record chain_statistics =
  difficulty :: rat
  hashrate_24h :: string
  mempool_transactions :: int
  mempool_size :: int
  market_price_usd :: rat

record stats_body =  \<comment> \<open>blockchair.com \<^verbatim>\<open>/bitcoin/stats\<close>\<close>
  stats_data :: chain_statistics

record pool_info =
  pool_name :: "string option"

record block_extras =
  pool :: "pool_info option"
  reward :: "int option"
  totalFees :: "int option"

record block =  \<comment> \<open>an element of mempool.space \<^verbatim>\<open>/api/v1/blocks\<close>\<close>
  blk_id :: string
  blk_height :: int
  blk_timestamp :: int
  blk_tx_count :: int
  blk_size :: int
  blk_weight :: int
  blk_extras :: "block_extras option"

record address_stats =
  funded_txo_count :: int
  funded_txo_sum :: int
  spent_txo_count :: int
  spent_txo_sum :: int
  tx_count :: int

record address_body =  \<comment> \<open>mempool.space \<^verbatim>\<open>/api/address/:address\<close>\<close>
  chain_stats :: address_stats
  mempool_stats :: address_stats

record txout =
  scriptpubkey_address :: "string option"
  txo_value :: int

record txin =
  prevout :: "txout option"

record tx_status =
  status_confirmed :: bool
  status_block_height :: "int option"
  status_block_time :: "int option"

record tx =  \<comment> \<open>mempool.space \<^verbatim>\<open>/api/tx/:txid\<close> and the elements of \<^verbatim>\<open>/api/address/:address/txs\<close>\<close>
  txid :: string
  status :: tx_status
  tx_size :: int
  tx_weight :: int
  tx_fee :: int
  vin :: "txin list"
  vout :: "txout list"

record mempool_body =  \<comment> \<open>mempool.space \<^verbatim>\<open>/api/mempool\<close>\<close>
  mempool_count :: int
  mempool_vsize :: int
  mempool_total_fee :: int

record ticker_body =  \<comment> \<open>blockchain.info \<^verbatim>\<open>/ticker\<close>, the field \<^verbatim>\<open>USD.last\<close>\<close>
  usd_last :: rat

subsection \<open>Response payloads\<close>

text \<open>Every payload carries \<^verbatim>\<open>fetchedAt\<close>; the nested objects of the source are flattened,
  the object's name becoming a prefix.\<close>

record payload =
  fetchedAt :: isotime

record overview_output = payload +
  network_blockHeight :: int
  network_difficulty :: rat
  network_hashrate :: string
  network_mempoolTxs :: int
  network_mempoolSize :: int
  fees_fastest :: int
  fees_halfHour :: int
  fees_hour :: int
  fees_economy :: int
  fees_minimum :: int
  fees_unit :: string
  price_usd :: rat
  latestBlock_height :: int
  latestBlock_timestamp :: isotime
  latestBlock_txCount :: int
  latestBlock_size :: int
  dataSources :: "string list"

record address_output = payload +
  address :: string
  balance_confirmed :: string
  balance_unconfirmed :: string
  balance_total :: string
  balance_sats :: int
  transactions_confirmed :: int
  transactions_unconfirmed :: int
  transactions_total :: int
  received :: string
  spent :: string

record transaction_output = payload +
  out_txid :: string
  out_confirmed :: bool
  blockHeight :: "int option"
  blockTime :: "isotime option"
  out_size :: int
  out_weight :: int
  vsize :: int
  fee_sats :: int
  fee_btc :: string
  fee_satPerVb :: string
  inputs_count :: int
  inputs_totalBtc :: string
  outputs_count :: int
  outputs_totalBtc :: string
  addresses_inputs :: "string list"
  addresses_outputs :: "string list"

datatype minutes = Minutes int | Variable  \<comment> \<open>\<^verbatim>\<open>estimatedMinutes\<close>: a number or \<^verbatim>\<open>'variable'\<close>\<close>

record fee_tier =
  satsPerVb :: int
  estimatedMinutes :: minutes

record recent_block =
  rb_height :: int
  rb_txCount :: int
  rb_size :: int
  rb_weight :: int

record fees_output = payload +
  recommended_fastest :: fee_tier
  recommended_halfHour :: fee_tier
  recommended_hour :: fee_tier
  recommended_economy :: fee_tier
  recommended_minimum :: fee_tier
  mempool_out_count :: int
  mempool_out_vsize :: int
  mempool_out_totalFee :: int
  mempool_out_sizeMb :: string
  costEstimates_note :: string
  costEstimates_fastest :: string
  costEstimates_economy :: string
  recentBlocks :: "recent_block list"
  avgBlockTime :: string

record block_summary =
  bs_height :: int
  bs_hash :: string
  bs_timestamp :: isotime
  bs_txCount :: int
  bs_size :: int
  bs_weight :: int
  bs_miner :: string
  bs_reward :: "string option"
  bs_fees :: "string option"

record blocks_output = payload +
  out_blocks :: "block_summary list"
  summary_blocksReturned :: int
  summary_totalTransactions :: int
  summary_avgTxPerBlock :: int
  summary_totalSizeMb :: string
  summary_heightRange :: string

record recent_tx =
  rt_txid :: string
  rt_confirmed :: bool
  rt_blockHeight :: "int option"
  rt_timestamp :: "isotime option"
  rt_type :: string
  rt_amount :: string

record report_output = payload +
  report_address :: string
  report_balance_btc :: string
  report_balance_sats :: int
  report_balance_usd :: string
  activity_totalTransactions :: int
  activity_totalReceived :: string
  activity_totalSpent :: string
  activity_utxoCount :: int
  isActive :: bool
  isWhale :: bool
  hasRecentActivity :: bool
  recentTransactions :: "recent_tx list"
  pricing_btcUsd :: rat


subsection \<open>The upstream snapshot\<close>

text \<open>One field per URL the handlers fetch: what each GET would bring back. The endpoints
  with an address or a transaction id in their path are functions of it.\<close>

record upstream =
  fees_recommended :: "fee_recommendation reply"  \<comment> \<open>\<^verbatim>\<open>https://mempool.space/api/v1/fees/recommended\<close>\<close>
  blockchair_stats :: "stats_body reply"          \<comment> \<open>\<^verbatim>\<open>https://api.blockchair.com/bitcoin/stats\<close>\<close>
  recent_blocks :: "block list reply"             \<comment> \<open>\<^verbatim>\<open>https://mempool.space/api/v1/blocks\<close>\<close>
  mempool :: "mempool_body reply"                 \<comment> \<open>\<^verbatim>\<open>https://mempool.space/api/mempool\<close>\<close>
  address_info :: "string \<Rightarrow> address_body reply" \<comment> \<open>\<^verbatim>\<open>https://mempool.space/api/address/${address}\<close>\<close>
  address_txs :: "string \<Rightarrow> tx list reply"       \<comment> \<open>\<^verbatim>\<open>https://mempool.space/api/address/${address}/txs\<close>\<close>
  tx_info :: "string \<Rightarrow> tx reply"                \<comment> \<open>\<^verbatim>\<open>https://mempool.space/api/tx/${txid}\<close>\<close>
  ticker :: "ticker_body reply"                   \<comment> \<open>\<^verbatim>\<open>https://blockchain.info/ticker\<close>\<close>

subsection \<open>Network overview\<close>

definition overview :: "upstream \<Rightarrow> timing \<Rightarrow> clock \<Rightarrow> error + overview_output" where
  "overview u settled clock =
     (case promise_all3 settled (fetchJSON (fees_recommended u)) (fetchJSON (blockchair_stats u))
             (fetchJSON (recent_blocks u)) of
        Inl err \<Rightarrow> Inl err
      | Inr (fees, stats, blocks) \<Rightarrow>
          (case blocks of
             [] \<Rightarrow> Inl TypeError
           | latestBlock # _ \<Rightarrow>
               (let networkStats = stats_data stats
                in Inr \<lparr>fetchedAt = ISO (clock 0),
                        network_blockHeight = blk_height latestBlock,
                        network_difficulty = difficulty networkStats,
                        network_hashrate = hashrate_24h networkStats,
                        network_mempoolTxs = mempool_transactions networkStats,
                        network_mempoolSize = mempool_size networkStats,
                        fees_fastest = fastestFee fees,
                        fees_halfHour = halfHourFee fees,
                        fees_hour = hourFee fees,
                        fees_economy = economyFee fees,
                        fees_minimum = minimumFee fees,
                        fees_unit = ''sat/vB'',
                        price_usd = market_price_usd networkStats,
                        latestBlock_height = blk_height latestBlock,
                        latestBlock_timestamp = ISO (blk_timestamp latestBlock * 1000),
                        latestBlock_txCount = blk_tx_count latestBlock,
                        latestBlock_size = blk_size latestBlock,
                        dataSources = [''mempool.space'', ''blockchair.com'']\<rparr>)))"

subsection \<open>Address lookup\<close>

definition address_handler :: "upstream \<Rightarrow> string \<Rightarrow> clock \<Rightarrow> error + address_output" where
  "address_handler u input_address clock =
     (case fetchJSON (address_info u input_address) of
        Inl err \<Rightarrow> Inl err
      | Inr data \<Rightarrow>
          (let chainBalance = funded_txo_sum (chain_stats data) - spent_txo_sum (chain_stats data);
               mempoolBalance = funded_txo_sum (mempool_stats data) - spent_txo_sum (mempool_stats data);
               totalBalance = chainBalance + mempoolBalance
           in Inr \<lparr>fetchedAt = ISO (clock 0),
                   address = input_address,
                   balance_confirmed = satsToBtc chainBalance,
                   balance_unconfirmed = satsToBtc mempoolBalance,
                   balance_total = satsToBtc totalBalance,
                   balance_sats = totalBalance,
                   transactions_confirmed = tx_count (chain_stats data),
                   transactions_unconfirmed = tx_count (mempool_stats data),
                   transactions_total = tx_count (chain_stats data) + tx_count (mempool_stats data),
                   received = satsToBtc (funded_txo_sum (chain_stats data)),
                   spent = satsToBtc (spent_txo_sum (chain_stats data))\<rparr>))"

subsection \<open>Transaction details\<close>

text \<open>\<^verbatim>\<open>v.prevout?.value || 0\<close> and \<^verbatim>\<open>v.prevout?.scriptpubkey_address\<close>.\<close>

definition prevout_value :: "txin \<Rightarrow> int" where
  "prevout_value v = (case prevout v of None \<Rightarrow> 0 | Some p \<Rightarrow> txo_value p)"

definition prevout_address :: "txin \<Rightarrow> string option" where
  "prevout_address v = (case prevout v of None \<Rightarrow> None | Some p \<Rightarrow> scriptpubkey_address p)"

text \<open>\<^verbatim>\<open>xs.map(f).filter(Boolean)\<close> for an optional string \<open>f\<close>.\<close>

definition present_strings :: "string option list \<Rightarrow> string list" where
  "present_strings xs = List.map_filter truthy_string xs"

definition transaction_handler :: "upstream \<Rightarrow> string \<Rightarrow> clock \<Rightarrow> error + transaction_output" where
  "transaction_handler u input_txid clock =
     (case fetchJSON (tx_info u input_txid) of
        Inl err \<Rightarrow> Inl err
      | Inr t \<Rightarrow>
          (let totalInput = foldl (\<lambda>sum v. sum + prevout_value v) 0 (vin t);
               totalOutput = foldl (\<lambda>sum v. sum + txo_value v) 0 (vout t)
           in Inr \<lparr>fetchedAt = ISO (clock 0),
                   out_txid = txid t,
                   out_confirmed = status_confirmed (status t),
                   blockHeight = truthy_int (status_block_height (status t)),
                   blockTime = map_option (\<lambda>bt. ISO (bt * 1000)) (truthy_int (status_block_time (status t))),
                   out_size = tx_size t,
                   out_weight = tx_weight t,
                   vsize = math_ceil (of_int (tx_weight t) / 4),
                   fee_sats = tx_fee t,
                   fee_btc = satsToBtc (tx_fee t),
                   fee_satPerVb =
                     toFixed 2 (js_divide (of_int (tx_fee t)) (of_int (math_ceil (of_int (tx_weight t) / 4)))),
                   inputs_count = int (length (vin t)),
                   inputs_totalBtc = satsToBtc totalInput,
                   outputs_count = int (length (vout t)),
                   outputs_totalBtc = satsToBtc totalOutput,
                   addresses_inputs = present_strings (map prevout_address (slice0 5 (vin t))),
                   addresses_outputs = present_strings (map scriptpubkey_address (slice0 5 (vout t)))\<rparr>))"

subsection \<open>Fee estimates\<close>

definition fees_handler :: "upstream \<Rightarrow> timing \<Rightarrow> clock \<Rightarrow> error + fees_output" where
  "fees_handler u settled clock =
     (case promise_all3 settled (fetchJSON (fees_recommended u)) (fetchJSON (mempool u))
             (map_sum id (slice0 6) (fetchJSON (recent_blocks u))) of
        Inl err \<Rightarrow> Inl err
      | Inr (fees, mp, blocks) \<Rightarrow>
          (let avgBlockTime_num =
                 (if length blocks > 1
                  then of_int (blk_timestamp (blocks ! 0) - blk_timestamp (blocks ! (length blocks - 1)))
                         / of_nat (length blocks - 1) / 60
                  else 10)
           in Inr \<lparr>fetchedAt = ISO (clock 0),
                   recommended_fastest = \<lparr>satsPerVb = fastestFee fees, estimatedMinutes = Minutes 10\<rparr>,
                   recommended_halfHour = \<lparr>satsPerVb = halfHourFee fees, estimatedMinutes = Minutes 30\<rparr>,
                   recommended_hour = \<lparr>satsPerVb = hourFee fees, estimatedMinutes = Minutes 60\<rparr>,
                   recommended_economy = \<lparr>satsPerVb = economyFee fees, estimatedMinutes = Minutes 120\<rparr>,
                   recommended_minimum = \<lparr>satsPerVb = minimumFee fees, estimatedMinutes = Variable\<rparr>,
                   mempool_out_count = mempool_count mp,
                   mempool_out_vsize = mempool_vsize mp,
                   mempool_out_totalFee = mempool_total_fee mp,
                   mempool_out_sizeMb = toFixed 2 (Num (of_int (mempool_vsize mp) / 1000000)),
                   costEstimates_note = ''Estimates for typical P2PKH transaction (225 vbytes)'',
                   costEstimates_fastest = show_int (fastestFee fees * 225) @ '' sats'',
                   costEstimates_economy = show_int (economyFee fees * 225) @ '' sats'',
                   recentBlocks =
                     map (\<lambda>b. \<lparr>rb_height = blk_height b, rb_txCount = blk_tx_count b,
                                rb_size = blk_size b, rb_weight = blk_weight b\<rparr>) blocks,
                   avgBlockTime = toFixed 1 (Num avgBlockTime_num) @ '' minutes''\<rparr>))"


subsection \<open>Recent blocks\<close>

text \<open>The input schema \<^verbatim>\<open>z.number().optional().default(10)\<close>: an absent limit is 10.\<close>

definition input_limit :: "int option \<Rightarrow> int" where
  "input_limit l = (case l of None \<Rightarrow> 10 | Some n \<Rightarrow> n)"

text \<open>\<^verbatim>\<open>b.extras?.pool?.name || 'Unknown'\<close>, \<^verbatim>\<open>b.extras?.reward\<close> and
  \<^verbatim>\<open>b.extras?.totalFees\<close>.\<close>

definition miner_name :: "block \<Rightarrow> string" where
  "miner_name b =
     (case truthy_string (Option.bind (Option.bind (blk_extras b) pool) pool_name) of
        None \<Rightarrow> ''Unknown'' | Some n \<Rightarrow> n)"

definition block_summary_of :: "block \<Rightarrow> block_summary" where
  "block_summary_of b =
     \<lparr>bs_height = blk_height b,
      bs_hash = blk_id b,
      bs_timestamp = ISO (blk_timestamp b * 1000),
      bs_txCount = blk_tx_count b,
      bs_size = blk_size b,
      bs_weight = blk_weight b,
      bs_miner = miner_name b,
      bs_reward = map_option satsToBtc (truthy_int (Option.bind (blk_extras b) reward)),
      bs_fees = map_option satsToBtc (truthy_int (Option.bind (blk_extras b) totalFees))\<rparr>"

text \<open>With no block left after the slice, \<^verbatim>\<open>recentBlocks[recentBlocks.length - 1]\<close> is
  \<^verbatim>\<open>undefined\<close> and reading its \<^verbatim>\<open>height\<close> throws.\<close>

definition blocks_handler :: "upstream \<Rightarrow> int option \<Rightarrow> clock \<Rightarrow> error + blocks_output" where
  "blocks_handler u input clock =
     (let limit = min (input_limit input) 15
      in case fetchJSON (recent_blocks u) of
           Inl err \<Rightarrow> Inl err
         | Inr bs \<Rightarrow>
             (let recent = slice0 limit bs;
                  totalTxs = foldl (\<lambda>sum b. sum + blk_tx_count b) 0 recent;
                  totalSize = foldl (\<lambda>sum b. sum + blk_size b) 0 recent
              in if recent = [] then Inl TypeError
                 else Inr \<lparr>fetchedAt = ISO (clock 0),
                           out_blocks = map block_summary_of recent,
                           summary_blocksReturned = int (length recent),
                           summary_totalTransactions = totalTxs,
                           summary_avgTxPerBlock = math_round (of_int totalTxs / of_nat (length recent)),
                           summary_totalSizeMb = toFixed 2 (Num (of_int totalSize / 1000000)),
                           summary_heightRange =
                             show_int (blk_height (recent ! (length recent - 1))) @ '' - '' @
                             show_int (blk_height (recent ! 0))\<rparr>))"

subsection \<open>Address report\<close>

text \<open>One entry of \<^verbatim>\<open>recentTransactions\<close>.\<close>

definition recent_entry :: "string \<Rightarrow> tx \<Rightarrow> recent_tx" where
  "recent_entry input_address t =
     (let isIncoming = list_ex (\<lambda>v. scriptpubkey_address v = Some input_address) (vout t);
          isOutgoing = list_ex (\<lambda>v. prevout_address v = Some input_address) (vin t);
          amount = (if isIncoming
                    then foldl (\<lambda>sum v. sum + txo_value v) 0
                           (filter (\<lambda>v. scriptpubkey_address v = Some input_address) (vout t))
                    else 0)
      in \<lparr>rt_txid = txid t,
          rt_confirmed = status_confirmed (status t),
          rt_blockHeight = status_block_height (status t),
          rt_timestamp = map_option (\<lambda>bt. ISO (bt * 1000)) (truthy_int (status_block_time (status t))),
          rt_type = (if isOutgoing then ''outgoing'' else ''incoming''),
          rt_amount = satsToBtc amount\<rparr>)"

text \<open>\<^verbatim>\<open>txs.some(tx => tx.status.block_time && (Date.now() / 1000 - tx.status.block_time) < 86400 * 30)\<close>.
  The callback reads the clock once for every transaction whose block time is present and
  not zero, and \<^verbatim>\<open>some\<close> stops at the first transaction it accepts. The function returns
  the verdict and the number of clock readings used so far, starting from \<open>k\<close>.\<close>

fun some_recent :: "clock \<Rightarrow> nat \<Rightarrow> tx list \<Rightarrow> bool \<times> nat" where
  "some_recent clock k [] = (False, k)"
| "some_recent clock k (t # ts) =
     (case truthy_int (status_block_time (status t)) of
        None \<Rightarrow> some_recent clock k ts
      | Some bt \<Rightarrow>
          (if (of_int (clock k) / 1000 - of_int bt :: rat) < 86400 * 30 then (True, Suc k)
           else some_recent clock (Suc k) ts))"

definition address_report ::
  "upstream \<Rightarrow> string \<Rightarrow> timing \<Rightarrow> clock \<Rightarrow> error + report_output" where
  "address_report u input_address settled clock =
     (case promise_all3 settled (fetchJSON (address_info u input_address))
             (catch_default [] (fetchJSON (address_txs u input_address)))
             (fetchJSON (ticker u)) of
        Inl err \<Rightarrow> Inl err
      | Inr (addressData, txs, tk) \<Rightarrow>
          (let chainBalance =
                 funded_txo_sum (chain_stats addressData) - spent_txo_sum (chain_stats addressData);
               btcPrice = usd_last tk;
               usdValue = (of_int chainBalance / 100000000) * btcPrice;
               recentTxs = map (recent_entry input_address) (slice0 10 txs);
               (recent, reads) = some_recent clock 0 txs
           in Inr \<lparr>fetchedAt = ISO (clock reads),
                   report_address = input_address,
                   report_balance_btc = satsToBtc chainBalance,
                   report_balance_sats = chainBalance,
                   report_balance_usd = toFixed 2 (Num usdValue),
                   activity_totalTransactions = tx_count (chain_stats addressData),
                   activity_totalReceived = satsToBtc (funded_txo_sum (chain_stats addressData)),
                   activity_totalSpent = satsToBtc (spent_txo_sum (chain_stats addressData)),
                   activity_utxoCount =
                     funded_txo_count (chain_stats addressData) - spent_txo_count (chain_stats addressData),
                   isActive = (tx_count (chain_stats addressData) > 10),
                   isWhale = (chainBalance > 100000000000),
                   hasRecentActivity = recent,
                   recentTransactions = recentTxs,
                   pricing_btcUsd = btcPrice\<rparr>))"


subsection \<open>Notions used to state the properties\<close>

text \<open>The callback of \<^verbatim>\<open>some\<close> above with \<^verbatim>\<open>Date.now()\<close> replaced by a given instant.\<close>

definition recent_tx_at :: "int \<Rightarrow> tx \<Rightarrow> bool" where
  "recent_tx_at now t =
     (case truthy_int (status_block_time (status t)) of
        None \<Rightarrow> False
      | Some bt \<Rightarrow> (of_int now / 1000 - of_int bt :: rat) < 86400 * 30)"

text \<open>How many of the first \<open>i\<close> transactions make the callback read the clock.\<close>

definition reads_before :: "tx list \<Rightarrow> nat \<Rightarrow> nat" where
  "reads_before ts i =
     length (filter (\<lambda>t. truthy_int (status_block_time (status t)) \<noteq> None) (take i ts))"

text \<open>The output object of a run, if the run produced one.\<close>

definition output_of :: "error + 'a \<Rightarrow> 'a option" where
  "output_of r = (case r of Inl err \<Rightarrow> None | Inr out \<Rightarrow> Some out)"

text \<open>A payload with its fetch timestamp blanked, and the output object of a run compared
  up to that field.\<close>

definition unstamped :: "'a payload_scheme \<Rightarrow> 'a payload_scheme" where
  "unstamped r = r\<lparr>fetchedAt := ISO 0\<rparr>"

definition up_to_stamp :: "error + 'a payload_scheme \<Rightarrow> 'a payload_scheme option" where
  "up_to_stamp r = map_option unstamped (output_of r)"

text \<open>The output object of an address report compared up to its fetch timestamp and
  \<open>hasRecentActivity\<close>.\<close>

definition up_to_clock :: "error + report_output \<Rightarrow> report_output option" where
  "up_to_clock r = map_option (\<lambda>out. unstamped (out\<lparr>hasRecentActivity := False\<rparr>)) (output_of r)"

text \<open>The finite binary64 numbers, and the binary64 numbers nearest to a given number: what
  a JavaScript division, product or subtraction returns for the exact result \<open>x\<close> is some \<open>y\<close> with
  \<open>nearest_binary64 x y\<close>. (Which of two nearest numbers is taken does not matter below.)\<close>

definition binary64 :: "rat \<Rightarrow> bool" where
  "binary64 y \<longleftrightarrow>
     (\<exists>(m::int) (a::nat) (b::nat). y = of_int m * 2 ^ a / 2 ^ b \<and> \<bar>m\<bar> < 2 ^ 53 \<and> a \<le> 971 \<and> b \<le> 1074)"

definition nearest_binary64 :: "rat \<Rightarrow> rat \<Rightarrow> bool" where
  "nearest_binary64 x y \<longleftrightarrow> binary64 y \<and> (\<forall>z. binary64 z \<longrightarrow> \<bar>x - y\<bar> \<le> \<bar>x - z\<bar>)"

subsection \<open>Example data\<close>

definition clock_at :: "int \<Rightarrow> clock" where
  "clock_at t k = t"

definition ticking_from :: "int \<Rightarrow> clock" where
  "ticking_from t k = t + int k"

text \<open>The fetches of a call settling in the order of the array, and in the opposite order.\<close>

definition in_turn :: timing where
  "in_turn i = i"

definition in_reverse :: timing where
  "in_reverse i = 2 - i"

definition for_any :: "'b \<Rightarrow> string \<Rightarrow> 'b" where
  "for_any r a = r"

definition example_block :: "int \<Rightarrow> block" where
  "example_block i =
     \<lparr>blk_id = ''000000000000000000021a5f'', blk_height = 800014 - i,
      blk_timestamp = 1700009000 - 654 * i, blk_tx_count = 2000 + i,
      blk_size = 1500000, blk_weight = 3990000, blk_extras = None\<rparr>"

definition fifteen_blocks :: "block list" where
  "fifteen_blocks = map example_block [0, 1, 2, 3, 4, 5, 6, 7, 8, 9, 10, 11, 12, 13, 14]"

definition example_fees :: fee_recommendation where
  "example_fees = \<lparr>fastestFee = 12, halfHourFee = 10, hourFee = 8, economyFee = 4, minimumFee = 2\<rparr>"

definition example_stats :: stats_body where
  "example_stats =
     \<lparr>stats_data = \<lparr>difficulty = 62463471666732, hashrate_24h = ''451000000000000000000'',
        mempool_transactions = 31000, mempool_size = 87000000, market_price_usd = 36500\<rparr>\<rparr>"

definition example_mempool :: mempool_body where
  "example_mempool = \<lparr>mempool_count = 31000, mempool_vsize = 45678901, mempool_total_fee = 123456789\<rparr>"

definition example_address :: address_body where
  "example_address =
     \<lparr>chain_stats = \<lparr>funded_txo_count = 7, funded_txo_sum = 500000000, spent_txo_count = 3,
        spent_txo_sum = 200000000, tx_count = 5\<rparr>,
      mempool_stats = \<lparr>funded_txo_count = 0, funded_txo_sum = 0, spent_txo_count = 0,
        spent_txo_sum = 0, tx_count = 0\<rparr>\<rparr>"

text \<open>Inconsistent upstream sums: more spent than funded on chain.\<close>

definition overdrawn_address :: address_body where
  "overdrawn_address =
     \<lparr>chain_stats = \<lparr>funded_txo_count = 1, funded_txo_sum = 100, spent_txo_count = 2,
        spent_txo_sum = 300, tx_count = 3\<rparr>,
      mempool_stats = \<lparr>funded_txo_count = 1, funded_txo_sum = 50, spent_txo_count = 0,
        spent_txo_sum = 0, tx_count = 1\<rparr>\<rparr>"

text \<open>An address at the classification thresholds, and one just above them.\<close>

definition threshold_address :: "int \<Rightarrow> address_body" where
  "threshold_address d =
     \<lparr>chain_stats = \<lparr>funded_txo_count = 20, funded_txo_sum = 100000000000 + d, spent_txo_count = 0,
        spent_txo_sum = 0, tx_count = 10 + d\<rparr>,
      mempool_stats = \<lparr>funded_txo_count = 0, funded_txo_sum = 0, spent_txo_count = 0,
        spent_txo_sum = 0, tx_count = 0\<rparr>\<rparr>"

definition example_ticker :: ticker_body where
  "example_ticker = \<lparr>usd_last = 36500\<rparr>"

text \<open>A payment of 70000 sats from \<^verbatim>\<open>bc1qme\<close> to \<^verbatim>\<open>bc1qyou\<close> with no change output,
  confirmed at the given block time; and a transaction still in the mempool.\<close>

definition spend_tx :: "int \<Rightarrow> tx" where
  "spend_tx bt =
     \<lparr>txid = ''ab12'', status = \<lparr>status_confirmed = True, status_block_height = Some 800000,
        status_block_time = Some bt\<rparr>,
      tx_size = 222, tx_weight = 561, tx_fee = 1000,
      vin = [\<lparr>prevout = Some \<lparr>scriptpubkey_address = Some ''bc1qme'', txo_value = 71000\<rparr>\<rparr>],
      vout = [\<lparr>scriptpubkey_address = Some ''bc1qyou'', txo_value = 70000\<rparr>]\<rparr>"

definition pending_tx :: tx where
  "pending_tx =
     \<lparr>txid = ''cd34'', status = \<lparr>status_confirmed = False, status_block_height = None,
        status_block_time = None\<rparr>,
      tx_size = 150, tx_weight = 600, tx_fee = 300,
      vin = [\<lparr>prevout = None\<rparr>],
      vout = [\<lparr>scriptpubkey_address = Some ''bc1qme'', txo_value = 2500\<rparr>,
              \<lparr>scriptpubkey_address = None, txo_value = 0\<rparr>]\<rparr>"

definition example_upstream :: upstream where
  "example_upstream =
     \<lparr>fees_recommended = Response 200 (Some example_fees),
      blockchair_stats = Response 200 (Some example_stats),
      recent_blocks = Response 200 (Some fifteen_blocks),
      mempool = Response 200 (Some example_mempool),
      address_info = for_any (Response 200 (Some example_address)),
      address_txs = for_any (Response 200 (Some [pending_tx, spend_tx 1700000000])),
      tx_info = for_any (Response 200 (Some (spend_tx 1700000000))),
      ticker = Response 200 (Some example_ticker)\<rparr>"


section \<open>Properties\<close>

subsection \<open>Digits and decimal text\<close>

lemma digit_char_cases:
  "d < 10 \<Longrightarrow> digit_char d \<in> set ''0123456789''"
  unfolding digit_char_def by (rule nth_mem) simp

lemma digit_val_digit_char: "d < 10 \<Longrightarrow> digit_val (digit_char d) = d"
proof -
  assume "d < 10"
  then have "d \<in> {0,1,2,3,4,5,6,7,8,9}" by auto
  then show ?thesis
    by (auto simp: digit_val_def digit_char_def)
qed

lemma show_nat_digits: "set (show_nat n) \<subseteq> set ''0123456789''"
proof (induction n rule: show_nat.induct)
  case (1 n)
  show ?case
  proof (cases "n < 10")
    case True
    then show ?thesis using digit_char_cases [of n] by (subst show_nat.simps) simp
  next
    case False
    have "n mod 10 < 10" by simp
    from digit_char_cases [OF this] 1 [OF False] False show ?thesis
      by (subst show_nat.simps) simp
  qed
qed

lemma show_nat_no_point: "CHR ''.'' \<notin> set (show_nat n)"
  using show_nat_digits [of n] by auto

lemma show_nat_no_minus: "CHR ''-'' \<notin> set (show_nat n)"
  using show_nat_digits [of n] by auto

lemma show_nat_zero: "show_nat 0 = ''0''"
  by (subst show_nat.simps) (simp add: digit_char_def)

lemma floor_rat_half: "\<lfloor>1 / 2 :: rat\<rfloor> = 0"
  by (simp add: floor_eq_iff)

lemma show_nat_nonempty: "show_nat n \<noteq> []"
  by (subst show_nat.simps) simp

lemma digits_val_snoc: "digits_val (s @ [c]) = 10 * digits_val s + digit_val c"
  by (simp add: digits_val_def)

lemma digits_val_append:
  "digits_val (a @ b) = digits_val a * 10 ^ length b + digits_val b"
proof (induction b rule: rev_induct)
  case Nil
  show ?case by (simp add: digits_val_def)
next
  case (snoc c b)
  have "digits_val (a @ b @ [c]) = 10 * digits_val (a @ b) + digit_val c"
    using digits_val_snoc [of "a @ b" c] by simp
  with snoc show ?case by (simp add: digits_val_snoc algebra_simps)
qed

lemma digits_val_zeros: "digits_val (replicate k (CHR ''0'')) = 0"
  by (induction k) (simp_all add: digits_val_def digit_val_def)

lemma digits_val_show_nat: "digits_val (show_nat n) = n"
proof (induction n rule: show_nat.induct)
  case (1 n)
  show ?case
  proof (cases "n < 10")
    case True
    then show ?thesis
      by (subst show_nat.simps) (simp add: digits_val_def digit_val_digit_char)
  next
    case False
    have "digits_val (show_nat n) = 10 * digits_val (show_nat (n div 10)) + digit_val (digit_char (n mod 10))"
      using False by (subst show_nat.simps) (simp add: digits_val_snoc)
    also have "\<dots> = 10 * (n div 10) + n mod 10"
      using 1 [OF False] by (simp add: digit_val_digit_char)
    finally show ?thesis by simp
  qed
qed


lemma int_part_point: "CHR ''.'' \<notin> set a \<Longrightarrow> int_part (a @ ''.'' @ b) = a"
  by (induction a) (auto simp: int_part_def)

lemma frac_part_point: "CHR ''.'' \<notin> set a \<Longrightarrow> frac_part (a @ ''.'' @ b) = b"
  by (induction a) (auto simp: frac_part_def)

lemma int_part_plain: "CHR ''.'' \<notin> set a \<Longrightarrow> int_part a = a"
  by (induction a) (auto simp: int_part_def)

lemma frac_part_plain: "CHR ''.'' \<notin> set a \<Longrightarrow> frac_part a = []"
  by (induction a) (auto simp: frac_part_def)

lemma unsigned_value_split:
  assumes "CHR ''.'' \<notin> set m" and "f \<le> length m"
  shows "unsigned_value (take (length m - f) m @ ''.'' @ drop (length m - f) m)
           = of_nat (digits_val m) / 10 ^ f"
    and "length (frac_part (take (length m - f) m @ ''.'' @ drop (length m - f) m)) = f"
proof -
  let ?a = "take (length m - f) m" and ?b = "drop (length m - f) m"
  have a: "CHR ''.'' \<notin> set ?a"
    using assms(1) set_take_subset [of "length m - f" m] by auto
  have lb: "length ?b = f" using assms(2) by simp
  have "digits_val m = digits_val (?a @ ?b)" by simp
  also have "\<dots> = digits_val ?a * 10 ^ f + digits_val ?b"
    using digits_val_append [of ?a ?b] lb by simp
  finally have m: "digits_val m = digits_val ?a * 10 ^ f + digits_val ?b" .
  have "unsigned_value (?a @ ''.'' @ ?b)
          = (of_nat (digits_val ?a) :: rat) + of_nat (digits_val ?b) / 10 ^ f"
    unfolding unsigned_value_def int_part_point [OF a] frac_part_point [OF a] lb ..
  also have "\<dots> = of_nat (digits_val m) / 10 ^ f"
    by (simp add: m add_divide_distrib)
  finally show "unsigned_value (?a @ ''.'' @ ?b) = of_nat (digits_val m) / 10 ^ f" .
  show "length (frac_part (?a @ ''.'' @ ?b)) = f"
    unfolding frac_part_point [OF a] by (rule lb)
qed

lemma place_point_value:
  assumes "CHR ''.'' \<notin> set m" and "m \<noteq> []"
  shows "unsigned_value (place_point f m) = of_nat (digits_val m) / 10 ^ f"
    and "length (frac_part (place_point f m)) = f"
proof -
  define m' where "m' = (if length m \<le> f then replicate (f + 1 - length m) (CHR ''0'') @ m else m)"
  have m'_point: "CHR ''.'' \<notin> set m'"
    using assms(1) by (auto simp: m'_def)
  have m'_val: "digits_val m' = digits_val m"
    by (simp add: m'_def digits_val_append digits_val_zeros)
  have m'_len: "f \<le> length m'"
    using assms(2) by (cases m) (auto simp: m'_def)
  have k: "(if length m \<le> f then f + 1 else length m) = length m'"
    by (simp add: m'_def)
  have shape: "place_point f m =
      (if f \<noteq> 0 then take (length m' - f) m' @ ''.'' @ drop (length m' - f) m' else m)"
    unfolding place_point_def Let_def k m'_def [symmetric] ..
  show "unsigned_value (place_point f m) = of_nat (digits_val m) / 10 ^ f"
  proof (cases "f = 0")
    case True
    then have "place_point f m = m" by (simp add: place_point_def)
    then show ?thesis
      by (simp add: True unsigned_value_def int_part_plain [OF assms(1)]
          frac_part_plain [OF assms(1)] digits_val_def)
  next
    case False
    with unsigned_value_split(1) [OF m'_point m'_len] show ?thesis
      by (simp add: shape m'_val)
  qed
  show "length (frac_part (place_point f m)) = f"
  proof (cases "f = 0")
    case True
    then have "place_point f m = m" by (simp add: place_point_def)
    then show ?thesis by (simp add: True frac_part_plain [OF assms(1)])
  next
    case False
    with unsigned_value_split(2) [OF m'_point m'_len] show ?thesis
      by (simp add: shape)
  qed
qed

lemma place_point_chars: "set (place_point f m) \<subseteq> insert (CHR ''.'') (insert (CHR ''0'') (set m))"
proof -
  have "set (take j xs) \<union> set (drop j xs) \<subseteq> set xs" for j and xs :: string
    using set_take_subset [of j xs] set_drop_subset [of j xs] by blast
  then show ?thesis
    unfolding place_point_def Let_def
    by (auto dest: in_set_takeD in_set_dropD split: if_splits)
qed

lemma place_point_nonempty: "m \<noteq> [] \<Longrightarrow> place_point f m \<noteq> []"
  by (simp add: place_point_def Let_def)

text \<open>The text \<open>toFixed\<close> builds for a non-negative number.\<close>

lemma toFixed_finite_nonneg:
  assumes "0 \<le> x"
  shows "unsigned_value (toFixed_finite f x) = of_nat (toFixed_digits f x) / 10 ^ f"
    and "length (frac_part (toFixed_finite f x)) = f"
    and "CHR ''-'' \<notin> set (toFixed_finite f x)"
    and "toFixed_finite f x \<noteq> []"
proof -
  define n where "n = toFixed_digits f x"
  define m where "m = (if n = 0 then ''0'' else show_nat n)"
  have m_eq: "m = show_nat n"
    unfolding m_def by (simp add: show_nat_zero)
  have m_point: "CHR ''.'' \<notin> set m" and m_minus: "CHR ''-'' \<notin> set m" and m_ne: "m \<noteq> []"
    unfolding m_eq by (rule show_nat_no_point show_nat_no_minus show_nat_nonempty)+
  have m_val: "digits_val m = n" unfolding m_eq by (rule digits_val_show_nat)
  have shape: "toFixed_finite f x = place_point f m"
    using assms unfolding toFixed_finite_def Let_def n_def m_def by (simp add: not_less [symmetric])
  show "unsigned_value (toFixed_finite f x) = of_nat (toFixed_digits f x) / 10 ^ f"
    unfolding shape place_point_value(1) [OF m_point m_ne] m_val n_def ..
  show "length (frac_part (toFixed_finite f x)) = f"
    unfolding shape by (rule place_point_value(2) [OF m_point m_ne])
  show "CHR ''-'' \<notin> set (toFixed_finite f x)"
    using m_minus place_point_chars [of f m] unfolding shape by auto
  show "toFixed_finite f x \<noteq> []"
    unfolding shape by (rule place_point_nonempty [OF m_ne])
qed

lemma toFixed_finite_neg:
  assumes "x < 0"
  shows "toFixed_finite f x = CHR ''-'' # toFixed_finite f (- x)"
  using assms by (simp add: toFixed_finite_def Let_def)

text \<open>The value of the text: the nearest multiple of 10^-f, a tie going away from zero.\<close>

lemma decimal_value_toFixed_finite:
  "decimal_value (toFixed_finite f x) =
     (if x < 0 then - 1 else 1) * of_nat (toFixed_digits f \<bar>x\<bar>) / 10 ^ f"
proof (cases "x < 0")
  case True
  then have "0 \<le> - x" by simp
  from toFixed_finite_nonneg(1) [OF this, of f] True show ?thesis
    by (simp add: toFixed_finite_neg abs_if)
next
  case False
  then have x: "0 \<le> x" by simp
  obtain c s where cs: "toFixed_finite f x = c # s"
    using toFixed_finite_nonneg(4) [OF x, of f] by (cases "toFixed_finite f x") auto
  have "c \<noteq> CHR ''-''"
    using toFixed_finite_nonneg(3) [OF x, of f] cs by auto
  then have "decimal_value (toFixed_finite f x) = unsigned_value (toFixed_finite f x)"
    by (simp add: cs)
  with toFixed_finite_nonneg(1) [OF x, of f] False show ?thesis
    by (simp add: abs_if)
qed

lemma frac_part_toFixed_finite: "length (frac_part (toFixed_finite f x)) = f"
proof (cases "x < 0")
  case True
  then have "0 \<le> - x" by simp
  from toFixed_finite_nonneg(2) [OF this, of f] True show ?thesis
    by (simp add: toFixed_finite_neg frac_part_def)
next
  case False
  then show ?thesis using toFixed_finite_nonneg(2) [of x f] by simp
qed

lemma toFixed_digits_nearest:
  assumes "0 \<le> x"
  shows "\<bar>of_nat (toFixed_digits f x) - x * 10 ^ f\<bar> \<le> 1 / 2"
proof -
  let ?y = "x * 10 ^ f + 1 / 2"
  have "0 \<le> ?y" using assms by simp
  then have "0 \<le> \<lfloor>?y\<rfloor>" by simp
  then have n: "(of_nat (toFixed_digits f x) :: rat) = of_int \<lfloor>?y\<rfloor>"
    by (simp add: toFixed_digits_def)
  have "of_int \<lfloor>?y\<rfloor> \<le> ?y" and "?y < of_int \<lfloor>?y\<rfloor> + 1"
    by linarith+
  then show ?thesis unfolding n by linarith
qed

lemma toFixed_digits_exact:
  "toFixed_digits f (of_nat k / 10 ^ f) = k"
  by (simp add: toFixed_digits_def floor_rat_half)

subsection \<open>Evaluating numerals\<close>

lemma floor_rat_divide_numeral [simp]:
  "\<lfloor>numeral a / numeral b :: rat\<rfloor> = numeral a div numeral b"
  by (metis floor_divide_of_int_eq of_int_numeral)

lemma floor_rat_minus_divide_numeral [simp]:
  "\<lfloor>- (numeral a / numeral b) :: rat\<rfloor> = - numeral a div numeral b"
  by (metis divide_minus_left floor_divide_of_int_eq of_int_neg_numeral of_int_numeral)

lemma floor_rat_one_divide_numeral [simp]:
  "\<lfloor>1 / numeral b :: rat\<rfloor> = 1 div numeral b"
  by (metis floor_divide_of_int_eq of_int_1 of_int_numeral)

lemma floor_rat_minus_one_divide_numeral [simp]:
  "\<lfloor>- (1 / numeral b) :: rat\<rfloor> = - 1 div numeral b"
  by (metis divide_minus_left floor_divide_of_int_eq of_int_1 of_int_minus of_int_numeral)

lemma ceiling_rat_divide_numeral [simp]:
  "\<lceil>numeral a / numeral b :: rat\<rceil> = - (- numeral a div numeral b)"
  by (simp add: ceiling_def)

lemma ceiling_rat_one_divide_numeral [simp]:
  "\<lceil>1 / numeral b :: rat\<rceil> = - (- 1 div numeral b)"
  by (simp add: ceiling_def)

lemma show_nat_numeral:
  "show_nat (numeral k) =
     (if (numeral k :: nat) < 10 then [digit_char (numeral k)]
      else show_nat (numeral k div 10) @ [digit_char (numeral k mod 10)])"
  by (rule show_nat.simps)

lemma replicate_numeral: "replicate (numeral k) x = x # replicate (pred_numeral k) x"
  by (simp add: numeral_eq_Suc)

lemma show_nat_one: "show_nat (Suc 0) = ''1''"
  by (subst show_nat.simps) (simp add: digit_char_def)

text \<open>The definitions with their \<open>let\<close>s resolved, for evaluation at concrete inputs.\<close>

lemma toFixed_finite_eval:
  "toFixed_finite f x =
     (if x < 0 then ''-'' else []) @
     place_point f (if toFixed_digits f \<bar>x\<bar> = 0 then ''0'' else show_nat (toFixed_digits f \<bar>x\<bar>))"
  by (simp add: toFixed_finite_def Let_def abs_if)

lemma place_point_eval:
  "place_point f m =
     (if f = 0 then m
      else if length m \<le> f
        then take 1 (replicate (f + 1 - length m) (CHR ''0'') @ m) @ ''.'' @
             drop 1 (replicate (f + 1 - length m) (CHR ''0'') @ m)
        else take (length m - f) m @ ''.'' @ drop (length m - f) m)"
  by (simp add: place_point_def Let_def)

lemma slice0_eval:
  "slice0 e xs =
     take (nat (if e < 0 then max (int (length xs) + e) 0 else min e (int (length xs)))) xs"
  by (simp add: slice0_def Let_def)

lemmas eval_number = toFixed_finite_eval place_point_eval toFixed_digits_def show_nat_numeral
  show_nat_zero show_nat_one replicate_numeral digit_char_def satsToBtc_def js_divide_def
  show_int_def slice0_eval math_ceil_def math_round_def

lemmas eval_decimal = unsigned_value_def int_part_def frac_part_def digits_val_def digit_val_def

subsection \<open>\<open>satsToBtc\<close>\<close>

text \<open>The text denotes exactly the amount in coins, with eight digits after the point, whatever
  the sign of the amount.\<close>

lemma satsToBtc_value: "decimal_value (satsToBtc s) = of_int s / 100000000"
proof -
  let ?x = "of_int s / 100000000 :: rat"
  have abs: "\<bar>?x\<bar> = of_nat (nat \<bar>s\<bar>) / 10 ^ 8" by simp
  have neg: "?x < 0 \<longleftrightarrow> s < 0" by simp
  have "decimal_value (satsToBtc s) =
          (if s < 0 then - 1 else 1) * of_nat (nat \<bar>s\<bar>) / 10 ^ 8"
    unfolding satsToBtc_def toFixed.simps decimal_value_toFixed_finite abs toFixed_digits_exact neg ..
  also have "\<dots> = ?x" by simp
  finally show ?thesis .
qed

lemma satsToBtc_places: "length (frac_part (satsToBtc s)) = 8"
  by (simp add: satsToBtc_def frac_part_toFixed_finite)

lemma satsToBtc_zero: "satsToBtc 0 = ''0.00000000''"
  by (simp add: eval_number)

subsection \<open>\<^verbatim>\<open>Promise.all\<close>\<close>

text \<open>It fulfils exactly when the three promises fulfil; whether it rejects does not depend
  on the settle order, and the reason is the reason of one of the three.\<close>

lemma promise_all3_fulfils:
  "promise_all3 settled a b c = Inr v \<longleftrightarrow> a = Inr (fst v) \<and> b = Inr (fst (snd v)) \<and> c = Inr (snd (snd v))"
  by (cases a; cases b; cases c) auto

lemma promise_all3_rejects:
  "(\<exists>err. promise_all3 settled a b c = Inl err) \<longleftrightarrow> isl a \<or> isl b \<or> isl c"
  by (cases a; cases b; cases c) simp_all

lemma promise_all3_reason:
  "promise_all3 settled a b c = Inl err \<Longrightarrow> a = Inl err \<or> b = Inl err \<or> c = Inl err"
  by (cases a; cases b; cases c) (auto split: if_splits)

lemma promise_all3_output:
  "output_of (promise_all3 settled a b c) = output_of (promise_all3 settled' a b c)"
  by (cases a; cases b; cases c) (simp_all add: output_of_def)

subsection \<open>The handlers when their fetches succeed\<close>

lemma address_handler_success:
  assumes "fetchJSON (address_info u a) = Inr d"
  shows "address_handler u a clock =
     Inr \<lparr>fetchedAt = ISO (clock 0),
          address = a,
          balance_confirmed = satsToBtc (funded_txo_sum (chain_stats d) - spent_txo_sum (chain_stats d)),
          balance_unconfirmed =
            satsToBtc (funded_txo_sum (mempool_stats d) - spent_txo_sum (mempool_stats d)),
          balance_total =
            satsToBtc (funded_txo_sum (chain_stats d) - spent_txo_sum (chain_stats d) +
                       (funded_txo_sum (mempool_stats d) - spent_txo_sum (mempool_stats d))),
          balance_sats =
            funded_txo_sum (chain_stats d) - spent_txo_sum (chain_stats d) +
            (funded_txo_sum (mempool_stats d) - spent_txo_sum (mempool_stats d)),
          transactions_confirmed = tx_count (chain_stats d),
          transactions_unconfirmed = tx_count (mempool_stats d),
          transactions_total = tx_count (chain_stats d) + tx_count (mempool_stats d),
          received = satsToBtc (funded_txo_sum (chain_stats d)),
          spent = satsToBtc (spent_txo_sum (chain_stats d))\<rparr>"
  using assms by (simp add: address_handler_def Let_def)

lemma address_handler_fetched:
  assumes "address_handler u a clock = Inr out"
  obtains d where "fetchJSON (address_info u a) = Inr d"
  using assms by (cases "fetchJSON (address_info u a)") (simp_all add: address_handler_def)

lemma transaction_handler_success:
  assumes "fetchJSON (tx_info u i) = Inr t"
  shows "transaction_handler u i clock =
     Inr \<lparr>fetchedAt = ISO (clock 0),
          out_txid = txid t,
          out_confirmed = status_confirmed (status t),
          blockHeight = truthy_int (status_block_height (status t)),
          blockTime = map_option (\<lambda>bt. ISO (bt * 1000)) (truthy_int (status_block_time (status t))),
          out_size = tx_size t,
          out_weight = tx_weight t,
          vsize = math_ceil (of_int (tx_weight t) / 4),
          fee_sats = tx_fee t,
          fee_btc = satsToBtc (tx_fee t),
          fee_satPerVb =
            toFixed 2 (js_divide (of_int (tx_fee t)) (of_int (math_ceil (of_int (tx_weight t) / 4)))),
          inputs_count = int (length (vin t)),
          inputs_totalBtc = satsToBtc (foldl (\<lambda>sum v. sum + prevout_value v) 0 (vin t)),
          outputs_count = int (length (vout t)),
          outputs_totalBtc = satsToBtc (foldl (\<lambda>sum v. sum + txo_value v) 0 (vout t)),
          addresses_inputs = present_strings (map prevout_address (slice0 5 (vin t))),
          addresses_outputs = present_strings (map scriptpubkey_address (slice0 5 (vout t)))\<rparr>"
  using assms by (simp add: transaction_handler_def Let_def)

lemma transaction_handler_fetched:
  assumes "transaction_handler u i clock = Inr out"
  obtains t where "fetchJSON (tx_info u i) = Inr t"
  using assms by (cases "fetchJSON (tx_info u i)") (simp_all add: transaction_handler_def)

lemma catch_default_succeeds: "\<exists>v. catch_default d r = Inr v"
  by (cases r) simp_all

lemma address_report_success:
  assumes "fetchJSON (address_info u a) = Inr d"
    and "catch_default [] (fetchJSON (address_txs u a)) = Inr txs"
    and "fetchJSON (ticker u) = Inr tk"
  shows "address_report u a settled clock =
     Inr \<lparr>fetchedAt = ISO (clock (snd (some_recent clock 0 txs))),
          report_address = a,
          report_balance_btc = satsToBtc (funded_txo_sum (chain_stats d) - spent_txo_sum (chain_stats d)),
          report_balance_sats = funded_txo_sum (chain_stats d) - spent_txo_sum (chain_stats d),
          report_balance_usd =
            toFixed 2 (Num (of_int (funded_txo_sum (chain_stats d) - spent_txo_sum (chain_stats d))
                              / 100000000 * usd_last tk)),
          activity_totalTransactions = tx_count (chain_stats d),
          activity_totalReceived = satsToBtc (funded_txo_sum (chain_stats d)),
          activity_totalSpent = satsToBtc (spent_txo_sum (chain_stats d)),
          activity_utxoCount = funded_txo_count (chain_stats d) - spent_txo_count (chain_stats d),
          isActive = (10 < tx_count (chain_stats d)),
          isWhale = (100000000000 < funded_txo_sum (chain_stats d) - spent_txo_sum (chain_stats d)),
          hasRecentActivity = fst (some_recent clock 0 txs),
          recentTransactions = map (recent_entry a) (slice0 10 txs),
          pricing_btcUsd = usd_last tk\<rparr>"
  using assms by (simp add: address_report_def Let_def case_prod_beta)

lemma address_report_fetched:
  assumes "address_report u a settled clock = Inr out"
  obtains d txs tk where "fetchJSON (address_info u a) = Inr d"
    and "catch_default [] (fetchJSON (address_txs u a)) = Inr txs"
    and "fetchJSON (ticker u) = Inr tk"
proof -
  let ?all = "promise_all3 settled (fetchJSON (address_info u a))
    (catch_default [] (fetchJSON (address_txs u a))) (fetchJSON (ticker u))"
  from assms obtain v where "?all = Inr v"
    by (cases ?all) (simp_all add: address_report_def)
  then have "fetchJSON (address_info u a) = Inr (fst v)"
    and "catch_default [] (fetchJSON (address_txs u a)) = Inr (fst (snd v))"
    and "fetchJSON (ticker u) = Inr (snd (snd v))"
    by (simp_all add: promise_all3_fulfils)
  then show ?thesis by (rule that)
qed

lemma recent_entry_eval:
  "recent_entry a t =
     \<lparr>rt_txid = txid t,
      rt_confirmed = status_confirmed (status t),
      rt_blockHeight = status_block_height (status t),
      rt_timestamp = map_option (\<lambda>bt. ISO (bt * 1000)) (truthy_int (status_block_time (status t))),
      rt_type = (if list_ex (\<lambda>v. prevout_address v = Some a) (vin t) then ''outgoing'' else ''incoming''),
      rt_amount =
        satsToBtc (if list_ex (\<lambda>v. scriptpubkey_address v = Some a) (vout t)
                   then foldl (\<lambda>sum v. sum + txo_value v) 0
                          (filter (\<lambda>v. scriptpubkey_address v = Some a) (vout t))
                   else 0)\<rparr>"
  by (simp add: recent_entry_def Let_def)

text \<open>The fetches of the example snapshot.\<close>

lemma example_fetches:
  "fetchJSON (fees_recommended example_upstream) = Inr example_fees"
  "fetchJSON (blockchair_stats example_upstream) = Inr example_stats"
  "fetchJSON (recent_blocks example_upstream) = Inr fifteen_blocks"
  "fetchJSON (mempool example_upstream) = Inr example_mempool"
  "fetchJSON (address_info example_upstream a) = Inr example_address"
  "fetchJSON (address_txs example_upstream a) = Inr [pending_tx, spend_tx 1700000000]"
  "fetchJSON (tx_info example_upstream i) = Inr (spend_tx 1700000000)"
  "fetchJSON (ticker example_upstream) = Inr example_ticker"
  by (simp_all add: example_upstream_def for_any_def)

subsection \<open>Address lookup: the balance\<close>

text \<open>
  C3. In every successful address response the total in sats is the confirmed balance
  (chain funded minus chain spent) plus the unconfirmed balance (mempool funded minus mempool
  spent); the strings \<open>confirmed\<close>, \<open>unconfirmed\<close> and \<open>total\<close> are \<open>satsToBtc\<close> of the
  three amounts, each denoting its amount divided by 100,000,000 and written with exactly eight
  decimals. No sign condition is needed: a negative balance is rendered as it is.
\<close>

theorem address_balance_total:
  assumes "address_handler u a clock = Inr out"
  shows "\<exists>d. fetchJSON (address_info u a) = Inr d \<and>
           balance_sats out =
             (funded_txo_sum (chain_stats d) - spent_txo_sum (chain_stats d)) +
             (funded_txo_sum (mempool_stats d) - spent_txo_sum (mempool_stats d)) \<and>
           balance_confirmed out =
             satsToBtc (funded_txo_sum (chain_stats d) - spent_txo_sum (chain_stats d)) \<and>
           balance_unconfirmed out =
             satsToBtc (funded_txo_sum (mempool_stats d) - spent_txo_sum (mempool_stats d)) \<and>
           balance_total out = satsToBtc (balance_sats out) \<and>
           decimal_value (balance_confirmed out) =
             of_int (funded_txo_sum (chain_stats d) - spent_txo_sum (chain_stats d)) / 100000000 \<and>
           decimal_value (balance_unconfirmed out) =
             of_int (funded_txo_sum (mempool_stats d) - spent_txo_sum (mempool_stats d)) / 100000000 \<and>
           decimal_value (balance_total out) = of_int (balance_sats out) / 100000000 \<and>
           length (frac_part (balance_confirmed out)) = 8 \<and>
           length (frac_part (balance_unconfirmed out)) = 8 \<and>
           length (frac_part (balance_total out)) = 8"
proof -
  from assms obtain d where d: "fetchJSON (address_info u a) = Inr d"
    by (rule address_handler_fetched)
  from assms have "out = projr (address_handler u a clock)" by simp
  then show ?thesis
    unfolding address_handler_success [OF d] using d
    by (simp add: satsToBtc_value satsToBtc_places)
qed

theorem address_balance_total_witness:
  "address_handler (example_upstream\<lparr>address_info := for_any (Response 200 (Some overdrawn_address))\<rparr>)
       ''bc1qme'' (clock_at 1700000000000) =
     Inr \<lparr>fetchedAt = ISO 1700000000000,
          address = ''bc1qme'',
          balance_confirmed = ''-0.00000200'',
          balance_unconfirmed = ''0.00000050'',
          balance_total = ''-0.00000150'',
          balance_sats = - 150,
          transactions_confirmed = 3,
          transactions_unconfirmed = 1,
          transactions_total = 4,
          received = ''0.00000100'',
          spent = ''0.00000300''\<rparr>
   \<and> decimal_value ''-0.00000200'' = - 200 / 100000000
   \<and> decimal_value ''-0.00000150'' = - 150 / 100000000"
  (is "address_handler ?u ?a ?c = Inr ?out \<and> _")
proof -
  have fetch: "fetchJSON (address_info ?u ?a) = Inr overdrawn_address"
    by (simp add: example_upstream_def for_any_def)
  have run: "address_handler ?u ?a ?c = Inr ?out"
    unfolding address_handler_success [OF fetch]
    by (simp add: overdrawn_address_def clock_at_def eval_number split del: if_split)
  from address_balance_total [OF run] obtain d where
    d: "fetchJSON (address_info ?u ?a) = Inr d"
    and c: "decimal_value (balance_confirmed ?out) =
              of_int (funded_txo_sum (chain_stats d) - spent_txo_sum (chain_stats d)) / 100000000"
    and t: "decimal_value (balance_total ?out) = of_int (balance_sats ?out) / 100000000"
    by blast
  from d fetch have "d = overdrawn_address" by simp
  with c t run show ?thesis by (simp add: overdrawn_address_def)
qed

text \<open>The scenario of the specification: 5 coins funded, 2 spent, nothing in the mempool.\<close>

lemma address_scenario:
  "address_handler example_upstream ''bc1qme'' (clock_at 1700000000000) =
     Inr \<lparr>fetchedAt = ISO 1700000000000,
          address = ''bc1qme'',
          balance_confirmed = ''3.00000000'',
          balance_unconfirmed = ''0.00000000'',
          balance_total = ''3.00000000'',
          balance_sats = 300000000,
          transactions_confirmed = 5,
          transactions_unconfirmed = 0,
          transactions_total = 5,
          received = ''5.00000000'',
          spent = ''2.00000000''\<rparr>"
  unfolding address_handler_success [OF example_fetches(5)]
  by (simp add: example_address_def clock_at_def eval_number split del: if_split)

subsection \<open>Transaction details: virtual size and fee rate\<close>

lemma math_ceil_quarter: "math_ceil (of_int w / 4) = (w + 3) div 4"
proof -
  have "\<lfloor>of_int (- w) / of_int 4 :: rat\<rfloor> = (- w) div 4"
    by (rule floor_divide_of_int_eq)
  then have "\<lceil>of_int w / 4 :: rat\<rceil> = - ((- w) div 4)"
    by (simp add: ceiling_def)
  then show ?thesis unfolding math_ceil_def by presburger
qed

lemma toFixed_finite_nearest:
  "\<exists>n::int. decimal_value (toFixed_finite f x) = of_int n / 10 ^ f \<and>
            \<bar>of_int n - x * 10 ^ f\<bar> \<le> 1 / 2"
proof (cases "x < 0")
  case True
  then have nonneg: "0 \<le> - x" by simp
  let ?n = "- int (toFixed_digits f (- x))"
  have "decimal_value (toFixed_finite f x) = of_int ?n / 10 ^ f"
    using True by (simp add: decimal_value_toFixed_finite abs_if)
  moreover have "\<bar>of_int ?n - x * 10 ^ f\<bar> \<le> 1 / 2"
  proof -
    have "of_int ?n - x * 10 ^ f = - (of_nat (toFixed_digits f (- x)) - (- x) * 10 ^ f)"
      by simp
    then have "\<bar>of_int ?n - x * 10 ^ f\<bar> = \<bar>of_nat (toFixed_digits f (- x)) - (- x) * 10 ^ f\<bar>"
      by (simp only: abs_minus)
    with toFixed_digits_nearest [OF nonneg, of f] show ?thesis by (simp only:)
  qed
  ultimately show ?thesis by blast
next
  case False
  then have nonneg: "0 \<le> x" by simp
  let ?n = "int (toFixed_digits f x)"
  have "decimal_value (toFixed_finite f x) = of_int ?n / 10 ^ f"
    using False by (simp add: decimal_value_toFixed_finite abs_if)
  moreover have "\<bar>of_int ?n - x * 10 ^ f\<bar> \<le> 1 / 2"
    using toFixed_digits_nearest [OF nonneg, of f] by simp
  ultimately show ?thesis by blast
qed

text \<open>
  C4. In every transaction response, with upstream weight \<open>W\<close> and fee \<open>F\<close>, the reported
  virtual size is \<open>ceil (W / 4)\<close>: the integer \<open>(W + 3) div 4\<close>, the least \<open>v\<close> with
  \<open>W \<le> 4 * v\<close>. For a positive weight the reported \<open>satPerVb\<close> is a text with exactly two
  decimals whose value \<open>n / 100\<close> is \<open>F\<close> divided by that virtual size rounded to the nearest
  hundredth. (A weight of zero makes the quotient infinite or undefined; the text is then
  \<^verbatim>\<open>Infinity\<close>, \<^verbatim>\<open>-Infinity\<close> or \<^verbatim>\<open>NaN\<close>.)
\<close>

theorem transaction_vsize_feerate:
  assumes "transaction_handler u i clock = Inr out"
  shows "\<exists>t. fetchJSON (tx_info u i) = Inr t \<and>
           out_weight out = tx_weight t \<and> fee_sats out = tx_fee t \<and>
           vsize out = (tx_weight t + 3) div 4 \<and>
           4 * (vsize out - 1) < tx_weight t \<and> tx_weight t \<le> 4 * vsize out \<and>
           (0 < tx_weight t \<longrightarrow>
              length (frac_part (fee_satPerVb out)) = 2 \<and>
              (\<exists>n::int. decimal_value (fee_satPerVb out) = of_int n / 100 \<and>
                 \<bar>of_int n - 100 * (of_int (tx_fee t) / of_int (vsize out))\<bar> \<le> (1 / 2 :: rat)))"
proof -
  from assms obtain t where t: "fetchJSON (tx_info u i) = Inr t"
    by (rule transaction_handler_fetched)
  from assms have out: "out = projr (transaction_handler u i clock)" by simp
  have w: "out_weight out = tx_weight t" and f: "fee_sats out = tx_fee t"
    and v: "vsize out = math_ceil (of_int (tx_weight t) / 4)"
    and r: "fee_satPerVb out = toFixed 2 (js_divide (of_int (tx_fee t)) (of_int (vsize out)))"
    unfolding out transaction_handler_success [OF t] by simp_all
  have v': "vsize out = (tx_weight t + 3) div 4"
    unfolding v by (rule math_ceil_quarter)
  have bounds: "4 * (vsize out - 1) < tx_weight t \<and> tx_weight t \<le> 4 * vsize out"
    unfolding v' by presburger
  have rate: "length (frac_part (fee_satPerVb out)) = 2 \<and>
      (\<exists>n::int. decimal_value (fee_satPerVb out) = of_int n / 100 \<and>
         \<bar>of_int n - 100 * (of_int (tx_fee t) / of_int (vsize out))\<bar> \<le> (1 / 2 :: rat))"
    if "0 < tx_weight t"
  proof -
    from that have "vsize out \<noteq> 0" unfolding v' by presburger
    then have rendered: "fee_satPerVb out = toFixed_finite 2 (of_int (tx_fee t) / of_int (vsize out))"
      unfolding r by (simp add: js_divide_def)
    from toFixed_finite_nearest [of 2 "of_int (tx_fee t) / of_int (vsize out)"]
    show ?thesis unfolding rendered by (simp add: frac_part_toFixed_finite mult.commute)
  qed
  from t w f v' bounds rate show ?thesis by blast
qed

theorem transaction_vsize_feerate_witness:
  "transaction_handler example_upstream ''ab12'' (clock_at 1700000000000) =
     Inr \<lparr>fetchedAt = ISO 1700000000000,
          out_txid = ''ab12'',
          out_confirmed = True,
          blockHeight = Some 800000,
          blockTime = Some (ISO 1700000000000),
          out_size = 222,
          out_weight = 561,
          vsize = 141,
          fee_sats = 1000,
          fee_btc = ''0.00001000'',
          fee_satPerVb = ''7.09'',
          inputs_count = 1,
          inputs_totalBtc = ''0.00071000'',
          outputs_count = 1,
          outputs_totalBtc = ''0.00070000'',
          addresses_inputs = [''bc1qme''],
          addresses_outputs = [''bc1qyou'']\<rparr>
   \<and> (141 :: int) = (561 + 3) div 4
   \<and> length (frac_part ''7.09'') = 2
   \<and> decimal_value ''7.09'' = 709 / 100
   \<and> \<bar>709 - 100 * (1000 / 141)\<bar> \<le> (1 / 2 :: rat)"
  (is "transaction_handler ?u ?i ?c = Inr ?out \<and> _")
proof -
  have run: "transaction_handler ?u ?i ?c = Inr ?out"
    unfolding transaction_handler_success [OF example_fetches(7)]
    by (simp add: spend_tx_def clock_at_def prevout_value_def prevout_address_def
        present_strings_def List.map_filter_def eval_number split del: if_split)
  from transaction_vsize_feerate [OF run] obtain t where
    t: "fetchJSON (tx_info example_upstream ''ab12'') = Inr t"
    and v: "vsize ?out = (tx_weight t + 3) div 4"
    and r: "0 < tx_weight t \<longrightarrow>
              length (frac_part (fee_satPerVb ?out)) = 2 \<and>
              (\<exists>n::int. decimal_value (fee_satPerVb ?out) = of_int n / 100 \<and>
                 \<bar>of_int n - 100 * (of_int (tx_fee t) / of_int (vsize ?out))\<bar> \<le> (1 / 2 :: rat))"
    by blast
  from t have t': "t = spend_tx 1700000000" by (simp add: example_fetches)
  then have "0 < tx_weight t" by (simp add: spend_tx_def)
  with r have places: "length (frac_part ''7.09'') = 2" by simp
  have val: "decimal_value ''7.09'' = 709 / 100"
    by (simp add: eval_decimal)
  from run v places val show ?thesis by (simp add: t' spend_tx_def)
qed

subsection \<open>Address report: classification thresholds\<close>

text \<open>
  C5. In every address report \<open>isActive\<close> holds exactly when the confirmed transaction count
  is greater than 10, and \<open>isWhale\<close> exactly when the confirmed balance (chain funded minus
  chain spent) is greater than 100,000,000,000 sats. The witness runs the handler at the two
  boundaries: 10 transactions and 100,000,000,000 sats give false, 11 and one sat more give
  true.
\<close>

theorem classification_thresholds:
  assumes "address_report u a settled clock = Inr out"
  shows "\<exists>d. fetchJSON (address_info u a) = Inr d \<and>
           activity_totalTransactions out = tx_count (chain_stats d) \<and>
           report_balance_sats out = funded_txo_sum (chain_stats d) - spent_txo_sum (chain_stats d) \<and>
           isActive out = (10 < tx_count (chain_stats d)) \<and>
           isWhale out = (100000000000 < funded_txo_sum (chain_stats d) - spent_txo_sum (chain_stats d))"
proof -
  from assms obtain d txs tk where d: "fetchJSON (address_info u a) = Inr d"
    and txs: "catch_default [] (fetchJSON (address_txs u a)) = Inr txs"
    and tk: "fetchJSON (ticker u) = Inr tk"
    by (rule address_report_fetched)
  from assms have "out = projr (address_report u a settled clock)" by simp
  then show ?thesis
    unfolding address_report_success [OF d txs tk] using d by simp
qed

theorem classification_thresholds_witness:
  "address_report (example_upstream\<lparr>address_info := for_any (Response 200 (Some (threshold_address 0)))\<rparr>)
       ''bc1qme'' in_turn (clock_at 1700000000000) =
     Inr \<lparr>fetchedAt = ISO 1700000000000,
          report_address = ''bc1qme'',
          report_balance_btc = ''1000.00000000'',
          report_balance_sats = 100000000000,
          report_balance_usd = ''36500000.00'',
          activity_totalTransactions = 10,
          activity_totalReceived = ''1000.00000000'',
          activity_totalSpent = ''0.00000000'',
          activity_utxoCount = 20,
          isActive = False,
          isWhale = False,
          hasRecentActivity = True,
          recentTransactions =
            [\<lparr>rt_txid = ''cd34'', rt_confirmed = False, rt_blockHeight = None, rt_timestamp = None,
              rt_type = ''incoming'', rt_amount = ''0.00002500''\<rparr>,
             \<lparr>rt_txid = ''ab12'', rt_confirmed = True, rt_blockHeight = Some 800000,
              rt_timestamp = Some (ISO 1700000000000), rt_type = ''outgoing'',
              rt_amount = ''0.00000000''\<rparr>],
          pricing_btcUsd = 36500\<rparr>
   \<and> address_report (example_upstream\<lparr>address_info := for_any (Response 200 (Some (threshold_address 1)))\<rparr>)
       ''bc1qme'' in_turn (clock_at 1700000000000) =
     Inr \<lparr>fetchedAt = ISO 1700000000000,
          report_address = ''bc1qme'',
          report_balance_btc = ''1000.00000001'',
          report_balance_sats = 100000000001,
          report_balance_usd = ''36500000.00'',
          activity_totalTransactions = 11,
          activity_totalReceived = ''1000.00000001'',
          activity_totalSpent = ''0.00000000'',
          activity_utxoCount = 20,
          isActive = True,
          isWhale = True,
          hasRecentActivity = True,
          recentTransactions =
            [\<lparr>rt_txid = ''cd34'', rt_confirmed = False, rt_blockHeight = None, rt_timestamp = None,
              rt_type = ''incoming'', rt_amount = ''0.00002500''\<rparr>,
             \<lparr>rt_txid = ''ab12'', rt_confirmed = True, rt_blockHeight = Some 800000,
              rt_timestamp = Some (ISO 1700000000000), rt_type = ''outgoing'',
              rt_amount = ''0.00000000''\<rparr>],
          pricing_btcUsd = 36500\<rparr>
   \<and> \<not> (10 :: int) < 10 \<and> (10 :: int) < 11
   \<and> \<not> (100000000000 :: int) < 100000000000 \<and> (100000000000 :: int) < 100000000001"
  (is "address_report ?u0 ?a ?s ?c = Inr ?out0 \<and> address_report ?u1 ?a ?s ?c = Inr ?out1 \<and> _")
proof -
  have d0: "fetchJSON (address_info ?u0 ?a) = Inr (threshold_address 0)"
    and d1: "fetchJSON (address_info ?u1 ?a) = Inr (threshold_address 1)"
    and txs0: "catch_default [] (fetchJSON (address_txs ?u0 ?a)) = Inr [pending_tx, spend_tx 1700000000]"
    and txs1: "catch_default [] (fetchJSON (address_txs ?u1 ?a)) = Inr [pending_tx, spend_tx 1700000000]"
    and tk0: "fetchJSON (ticker ?u0) = Inr example_ticker"
    and tk1: "fetchJSON (ticker ?u1) = Inr example_ticker"
    by (simp_all add: example_upstream_def for_any_def)
  have run0: "address_report ?u0 ?a ?s ?c = Inr ?out0"
    unfolding address_report_success [OF d0 txs0 tk0]
    by (simp add: threshold_address_def example_ticker_def pending_tx_def spend_tx_def clock_at_def
        recent_entry_eval prevout_address_def eval_number split del: if_split)
  have run1: "address_report ?u1 ?a ?s ?c = Inr ?out1"
    unfolding address_report_success [OF d1 txs1 tk1]
    by (simp add: threshold_address_def example_ticker_def pending_tx_def spend_tx_def clock_at_def
        recent_entry_eval prevout_address_def eval_number split del: if_split)
  from classification_thresholds [OF run0] classification_thresholds [OF run1] run0 run1
  show ?thesis by simp
qed

subsection \<open>Address report: a failing transaction history is isolated\<close>

text \<open>With the address and the ticker fetch both failing, the error of the report is the one
  that settles first.\<close>

lemma address_report_error_follows_settle_order:
  "address_report (example_upstream\<lparr>address_info := for_any (Response 404 None),
      ticker := NoResponse\<rparr>) ''bc1qme'' in_turn c = Inl (ApiError 404)
   \<and> address_report (example_upstream\<lparr>address_info := for_any (Response 404 None),
      ticker := NoResponse\<rparr>) ''bc1qme'' in_reverse c = Inl TransportError"
  by (simp add: address_report_def example_upstream_def for_any_def in_turn_def in_reverse_def)

text \<open>
  C2. If the transaction-history fetch fails, for whatever reason, while the address and the
  ticker fetches succeed, the address report succeeds: \<open>recentTransactions\<close> is empty,
  \<open>hasRecentActivity\<close> is false, the address, the balances in coins and in sats, the activity
  counts, \<open>isActive\<close>, \<open>isWhale\<close> and the price have the values computed from the address
  and ticker bodies, and the whole output, the dollar value included, is the output of a run
  whose history fetch returned an empty list. If the address fetch fails the whole report
  fails: the result is an error, the one of the address fetch or the one of the ticker fetch,
  and carries no payload.
\<close>

theorem address_report_isolates_history:
  "(fetchJSON (address_txs u a) = Inl e \<and> fetchJSON (address_info u a) = Inr d \<and>
    fetchJSON (ticker u) = Inr tk \<longrightarrow>
      (\<exists>out. address_report u a settled clock = Inr out \<and>
         recentTransactions out = [] \<and>
         \<not> hasRecentActivity out \<and>
         fetchedAt out = ISO (clock 0) \<and>
         report_address out = a \<and>
         report_balance_btc out =
           satsToBtc (funded_txo_sum (chain_stats d) - spent_txo_sum (chain_stats d)) \<and>
         report_balance_sats out = funded_txo_sum (chain_stats d) - spent_txo_sum (chain_stats d) \<and>
         activity_totalTransactions out = tx_count (chain_stats d) \<and>
         activity_totalReceived out = satsToBtc (funded_txo_sum (chain_stats d)) \<and>
         activity_totalSpent out = satsToBtc (spent_txo_sum (chain_stats d)) \<and>
         activity_utxoCount out = funded_txo_count (chain_stats d) - spent_txo_count (chain_stats d) \<and>
         isActive out = (10 < tx_count (chain_stats d)) \<and>
         isWhale out = (100000000000 < funded_txo_sum (chain_stats d) - spent_txo_sum (chain_stats d)) \<and>
         pricing_btcUsd out = usd_last tk) \<and>
      address_report u a settled clock =
        address_report (u\<lparr>address_txs := \<lambda>_. Response 200 (Some [])\<rparr>) a settled clock) \<and>
   (fetchJSON (address_info u a) = Inl e' \<longrightarrow>
      (\<exists>err. address_report u a settled clock = Inl err \<and>
         (err = e' \<or> fetchJSON (ticker u) = Inl err)))"
proof (intro conjI impI)
  let ?u = "u\<lparr>address_txs := \<lambda>_. Response 200 (Some [])\<rparr>"
  let ?out = "projr (address_report u a settled clock)"
  assume "fetchJSON (address_txs u a) = Inl e \<and> fetchJSON (address_info u a) = Inr d \<and>
    fetchJSON (ticker u) = Inr tk"
  then have d: "fetchJSON (address_info u a) = Inr d"
    and txs: "catch_default [] (fetchJSON (address_txs u a)) = Inr []"
    and tk: "fetchJSON (ticker u) = Inr tk"
    by simp_all
  have d': "fetchJSON (address_info ?u a) = Inr d"
    and txs': "catch_default [] (fetchJSON (address_txs ?u a)) = Inr []"
    and tk': "fetchJSON (ticker ?u) = Inr tk"
    using d tk by simp_all
  have run: "address_report u a settled clock = Inr ?out"
    unfolding address_report_success [OF d txs tk] by simp
  have fields: "recentTransactions ?out = [] \<and>
         \<not> hasRecentActivity ?out \<and>
         fetchedAt ?out = ISO (clock 0) \<and>
         report_address ?out = a \<and>
         report_balance_btc ?out =
           satsToBtc (funded_txo_sum (chain_stats d) - spent_txo_sum (chain_stats d)) \<and>
         report_balance_sats ?out = funded_txo_sum (chain_stats d) - spent_txo_sum (chain_stats d) \<and>
         activity_totalTransactions ?out = tx_count (chain_stats d) \<and>
         activity_totalReceived ?out = satsToBtc (funded_txo_sum (chain_stats d)) \<and>
         activity_totalSpent ?out = satsToBtc (spent_txo_sum (chain_stats d)) \<and>
         activity_utxoCount ?out = funded_txo_count (chain_stats d) - spent_txo_count (chain_stats d) \<and>
         isActive ?out = (10 < tx_count (chain_stats d)) \<and>
         isWhale ?out = (100000000000 < funded_txo_sum (chain_stats d) - spent_txo_sum (chain_stats d)) \<and>
         pricing_btcUsd ?out = usd_last tk"
    unfolding address_report_success [OF d txs tk] by (simp add: slice0_def)
  from run fields
  show "\<exists>out. address_report u a settled clock = Inr out \<and>
         recentTransactions out = [] \<and>
         \<not> hasRecentActivity out \<and>
         fetchedAt out = ISO (clock 0) \<and>
         report_address out = a \<and>
         report_balance_btc out =
           satsToBtc (funded_txo_sum (chain_stats d) - spent_txo_sum (chain_stats d)) \<and>
         report_balance_sats out = funded_txo_sum (chain_stats d) - spent_txo_sum (chain_stats d) \<and>
         activity_totalTransactions out = tx_count (chain_stats d) \<and>
         activity_totalReceived out = satsToBtc (funded_txo_sum (chain_stats d)) \<and>
         activity_totalSpent out = satsToBtc (spent_txo_sum (chain_stats d)) \<and>
         activity_utxoCount out = funded_txo_count (chain_stats d) - spent_txo_count (chain_stats d) \<and>
         isActive out = (10 < tx_count (chain_stats d)) \<and>
         isWhale out = (100000000000 < funded_txo_sum (chain_stats d) - spent_txo_sum (chain_stats d)) \<and>
         pricing_btcUsd out = usd_last tk"
    by (intro exI [of _ ?out] conjI) simp_all
  show "address_report u a settled clock = address_report ?u a settled clock"
    unfolding address_report_success [OF d txs tk] address_report_success [OF d' txs' tk'] ..
next
  assume bad: "fetchJSON (address_info u a) = Inl e'"
  obtain txs where txs: "catch_default [] (fetchJSON (address_txs u a)) = Inr txs"
    using catch_default_succeeds [of "[]" "fetchJSON (address_txs u a)"] by blast
  show "\<exists>err. address_report u a settled clock = Inl err \<and>
         (err = e' \<or> fetchJSON (ticker u) = Inl err)"
  proof (cases "fetchJSON (ticker u)")
    case (Inl e2)
    with bad txs show ?thesis by (simp add: address_report_def)
  next
    case (Inr tk)
    with bad txs show ?thesis by (simp add: address_report_def)
  qed
qed

theorem address_report_isolates_history_witness:
  "fetchJSON (address_txs (example_upstream\<lparr>address_txs := for_any NoResponse\<rparr>) ''bc1qme'')
     = Inl TransportError
   \<and> fetchJSON (address_info (example_upstream\<lparr>address_txs := for_any NoResponse\<rparr>) ''bc1qme'')
     = Inr example_address
   \<and> fetchJSON (ticker (example_upstream\<lparr>address_txs := for_any NoResponse\<rparr>)) = Inr example_ticker
   \<and> (\<exists>out. address_report (example_upstream\<lparr>address_txs := for_any NoResponse\<rparr>) ''bc1qme''
          in_turn (clock_at 1700000000000) = Inr out \<and>
        recentTransactions out = [] \<and>
        \<not> hasRecentActivity out \<and>
        fetchedAt out = ISO 1700000000000 \<and>
        report_address out = ''bc1qme'' \<and>
        report_balance_btc out = ''3.00000000'' \<and>
        report_balance_sats out = 300000000 \<and>
        activity_totalTransactions out = 5 \<and>
        activity_totalReceived out = ''5.00000000'' \<and>
        activity_totalSpent out = ''2.00000000'' \<and>
        activity_utxoCount out = 4 \<and>
        \<not> isActive out \<and>
        \<not> isWhale out \<and>
        pricing_btcUsd out = 36500)
   \<and> address_report (example_upstream\<lparr>address_txs := for_any NoResponse\<rparr>) ''bc1qme''
        in_turn (clock_at 1700000000000) =
      address_report (example_upstream\<lparr>address_txs := for_any NoResponse,
          address_txs := \<lambda>_. Response 200 (Some [])\<rparr>) ''bc1qme''
        in_turn (clock_at 1700000000000)
   \<and> fetchJSON (address_info (example_upstream\<lparr>address_info := for_any (Response 404 None)\<rparr>) ''bc1qme'')
     = Inl (ApiError 404)
   \<and> address_report (example_upstream\<lparr>address_info := for_any (Response 404 None)\<rparr>) ''bc1qme''
        in_turn (clock_at 1700000000000) = Inl (ApiError 404)"
  (is "?txs \<and> ?d \<and> ?tk \<and> ?run \<and> ?same \<and> ?bad \<and> address_report ?u' ?a ?s ?c = ?err")
proof -
  let ?u = "example_upstream\<lparr>address_txs := for_any NoResponse\<rparr>"
  have txs: ?txs and d: ?d and tk: ?tk and bad: ?bad
    by (simp_all add: example_upstream_def for_any_def)
  have tk': "fetchJSON (ticker ?u') = Inr example_ticker"
    by (simp add: example_upstream_def)
  from address_report_isolates_history
    [where u = ?u and a = ?a and e = TransportError and d = example_address and tk = example_ticker
       and settled = ?s and clock = ?c]
    txs d tk
  obtain out where out: "address_report ?u ?a ?s ?c = Inr out"
    and fields: "recentTransactions out = []" "\<not> hasRecentActivity out"
      "fetchedAt out = ISO (?c 0)" "report_address out = ?a"
      "report_balance_btc out =
         satsToBtc (funded_txo_sum (chain_stats example_address) - spent_txo_sum (chain_stats example_address))"
      "report_balance_sats out =
         funded_txo_sum (chain_stats example_address) - spent_txo_sum (chain_stats example_address)"
      "activity_totalTransactions out = tx_count (chain_stats example_address)"
      "activity_totalReceived out = satsToBtc (funded_txo_sum (chain_stats example_address))"
      "activity_totalSpent out = satsToBtc (spent_txo_sum (chain_stats example_address))"
      "activity_utxoCount out =
         funded_txo_count (chain_stats example_address) - spent_txo_count (chain_stats example_address)"
      "isActive out = (10 < tx_count (chain_stats example_address))"
      "isWhale out = (100000000000 <
         funded_txo_sum (chain_stats example_address) - spent_txo_sum (chain_stats example_address))"
      "pricing_btcUsd out = usd_last example_ticker"
    and same: ?same
    by blast
  from fields have shown: "recentTransactions out = []" "\<not> hasRecentActivity out"
      "fetchedAt out = ISO 1700000000000" "report_address out = ''bc1qme''"
      "report_balance_btc out = ''3.00000000''" "report_balance_sats out = 300000000"
      "activity_totalTransactions out = 5" "activity_totalReceived out = ''5.00000000''"
      "activity_totalSpent out = ''2.00000000''" "activity_utxoCount out = 4"
      "\<not> isActive out" "\<not> isWhale out" "pricing_btcUsd out = 36500"
    by (simp_all add: example_address_def example_ticker_def clock_at_def eval_number
        split del: if_split)
  from out shown have run: ?run by blast
  from address_report_isolates_history
    [where u = ?u' and a = ?a and e' = "ApiError 404" and settled = ?s and clock = ?c]
    bad
  obtain err where err: "address_report ?u' ?a ?s ?c = Inl err"
    and "err = ApiError 404 \<or> fetchJSON (ticker ?u') = Inl err"
    by blast
  with tk' have "err = ApiError 404" by simp
  with err have fail: "address_report ?u' ?a ?s ?c = ?err" by simp
  from txs d tk run same bad fail show ?thesis by blast
qed

subsection \<open>Address report: the recent transactions\<close>

lemma foldl_add_sum_list:
  "foldl (\<lambda>sum v. sum + f v) z xs = z + sum_list (map f xs)" for z :: int
  by (induction xs arbitrary: z) simp_all

lemma slice0_nonneg: "0 \<le> e \<Longrightarrow> slice0 e xs = take (nat e) xs"
  by (simp add: slice0_def Let_def min_def)

lemma recent_entry_type:
  "\<exists>v\<in>set (vin t). prevout_address v = Some a \<Longrightarrow> rt_type (recent_entry a t) = ''outgoing''"
  by (simp add: recent_entry_eval list_ex_iff)

lemma recent_entry_amount:
  "rt_amount (recent_entry a t) =
     satsToBtc (sum_list (map txo_value (filter (\<lambda>v. scriptpubkey_address v = Some a) (vout t))))"
proof (cases "list_ex (\<lambda>v. scriptpubkey_address v = Some a) (vout t)")
  case True
  then show ?thesis by (simp add: recent_entry_eval foldl_add_sum_list)
next
  case False
  then have "filter (\<lambda>v. scriptpubkey_address v = Some a) (vout t) = []"
    by (simp add: list_ex_iff filter_empty_conv)
  with False show ?thesis by (simp add: recent_entry_eval)
qed

lemma recent_entry_absent:
  "\<forall>v\<in>set (vout t). scriptpubkey_address v \<noteq> Some a \<Longrightarrow>
     rt_amount (recent_entry a t) = ''0.00000000''"
  by (simp add: recent_entry_eval list_ex_iff satsToBtc_zero)

text \<open>
  C10. The list \<open>recentTransactions\<close> has one entry for each of the first ten fetched
  transactions, in their order. An entry whose transaction has an input spending from the
  queried address is tagged \<^verbatim>\<open>outgoing\<close>. The amount of every entry is \<open>satsToBtc\<close> of the
  sum of the outputs paying the queried address and of nothing else, so a transaction none of
  whose outputs pays the address has the amount \<^verbatim>\<open>0.00000000\<close>.
\<close>

theorem recent_transactions_tagging:
  assumes "address_report u a settled clock = Inr out"
  shows "\<exists>txs. catch_default [] (fetchJSON (address_txs u a)) = Inr txs \<and>
           length (recentTransactions out) = min 10 (length txs) \<and>
           (\<forall>i < length (recentTransactions out).
              rt_txid (recentTransactions out ! i) = txid (txs ! i) \<and>
              ((\<exists>v\<in>set (vin (txs ! i)). prevout_address v = Some a) \<longrightarrow>
                 rt_type (recentTransactions out ! i) = ''outgoing'') \<and>
              rt_amount (recentTransactions out ! i) =
                satsToBtc (sum_list (map txo_value
                  (filter (\<lambda>v. scriptpubkey_address v = Some a) (vout (txs ! i))))) \<and>
              ((\<forall>v\<in>set (vout (txs ! i)). scriptpubkey_address v \<noteq> Some a) \<longrightarrow>
                 rt_amount (recentTransactions out ! i) = ''0.00000000''))"
proof -
  from assms obtain d txs tk where d: "fetchJSON (address_info u a) = Inr d"
    and txs: "catch_default [] (fetchJSON (address_txs u a)) = Inr txs"
    and tk: "fetchJSON (ticker u) = Inr tk"
    by (rule address_report_fetched)
  from assms have "out = projr (address_report u a settled clock)" by simp
  then have entries: "recentTransactions out = map (recent_entry a) (take 10 txs)"
    unfolding address_report_success [OF d txs tk] by (simp add: slice0_nonneg)
  have len: "length (recentTransactions out) = min 10 (length txs)"
    by (simp add: entries min.commute)
  have each: "recentTransactions out ! i = recent_entry a (txs ! i)"
    if "i < length (recentTransactions out)" for i
    using that by (simp add: entries)
  have props: "rt_txid (recentTransactions out ! i) = txid (txs ! i) \<and>
              ((\<exists>v\<in>set (vin (txs ! i)). prevout_address v = Some a) \<longrightarrow>
                 rt_type (recentTransactions out ! i) = ''outgoing'') \<and>
              rt_amount (recentTransactions out ! i) =
                satsToBtc (sum_list (map txo_value
                  (filter (\<lambda>v. scriptpubkey_address v = Some a) (vout (txs ! i))))) \<and>
              ((\<forall>v\<in>set (vout (txs ! i)). scriptpubkey_address v \<noteq> Some a) \<longrightarrow>
                 rt_amount (recentTransactions out ! i) = ''0.00000000'')"
    if "i < length (recentTransactions out)" for i
    unfolding each [OF that]
  proof (intro conjI impI)
    show "rt_txid (recent_entry a (txs ! i)) = txid (txs ! i)"
      by (simp add: recent_entry_eval)
    show "rt_type (recent_entry a (txs ! i)) = ''outgoing''"
      if "\<exists>v\<in>set (vin (txs ! i)). prevout_address v = Some a"
      using that by (rule recent_entry_type)
    show "rt_amount (recent_entry a (txs ! i)) =
        satsToBtc (sum_list (map txo_value
          (filter (\<lambda>v. scriptpubkey_address v = Some a) (vout (txs ! i)))))"
      by (rule recent_entry_amount)
    show "rt_amount (recent_entry a (txs ! i)) = ''0.00000000''"
      if "\<forall>v\<in>set (vout (txs ! i)). scriptpubkey_address v \<noteq> Some a"
      using that by (rule recent_entry_absent)
  qed
  from txs len props show ?thesis by blast
qed

theorem recent_transactions_tagging_witness:
  "address_report example_upstream ''bc1qme'' in_turn (clock_at 1700000000000) =
     Inr \<lparr>fetchedAt = ISO 1700000000000,
          report_address = ''bc1qme'',
          report_balance_btc = ''3.00000000'',
          report_balance_sats = 300000000,
          report_balance_usd = ''109500.00'',
          activity_totalTransactions = 5,
          activity_totalReceived = ''5.00000000'',
          activity_totalSpent = ''2.00000000'',
          activity_utxoCount = 4,
          isActive = False,
          isWhale = False,
          hasRecentActivity = True,
          recentTransactions =
            [\<lparr>rt_txid = ''cd34'', rt_confirmed = False, rt_blockHeight = None, rt_timestamp = None,
              rt_type = ''incoming'', rt_amount = ''0.00002500''\<rparr>,
             \<lparr>rt_txid = ''ab12'', rt_confirmed = True, rt_blockHeight = Some 800000,
              rt_timestamp = Some (ISO 1700000000000), rt_type = ''outgoing'',
              rt_amount = ''0.00000000''\<rparr>],
          pricing_btcUsd = 36500\<rparr>
   \<and> (\<exists>v\<in>set (vin (spend_tx 1700000000)). prevout_address v = Some ''bc1qme'')
   \<and> \<not> (\<exists>v\<in>set (vout (spend_tx 1700000000)). scriptpubkey_address v = Some ''bc1qme'')
   \<and> satsToBtc (sum_list (map txo_value
         (filter (\<lambda>v. scriptpubkey_address v = Some ''bc1qme'') (vout pending_tx)))) = ''0.00002500''"
  (is "address_report ?u ?a ?s ?c = Inr ?out \<and> ?spends \<and> ?unpaid \<and> ?paid")
proof -
  have txs: "catch_default [] (fetchJSON (address_txs ?u ?a)) = Inr [pending_tx, spend_tx 1700000000]"
    by (simp add: example_fetches)
  have run: "address_report ?u ?a ?s ?c = Inr ?out"
    unfolding address_report_success [OF example_fetches(5) txs example_fetches(8)]
    by (simp add: example_address_def example_ticker_def pending_tx_def spend_tx_def clock_at_def
        recent_entry_eval prevout_address_def eval_number split del: if_split)
  have spends: ?spends and unpaid: ?unpaid
    by (simp_all add: spend_tx_def prevout_address_def)
  from recent_transactions_tagging [OF run] txs
  have "\<forall>i < length (recentTransactions ?out).
          rt_amount (recentTransactions ?out ! i) =
            satsToBtc (sum_list (map txo_value
              (filter (\<lambda>v. scriptpubkey_address v = Some ?a) (vout ([pending_tx, spend_tx 1700000000] ! i)))))"
    by auto
  from this [rule_format, of 0] have paid: ?paid by simp
  from run spends unpaid paid show ?thesis by blast
qed

subsection \<open>Fee estimates: the average block time\<close>

lemma fees_handler_success:
  assumes "fetchJSON (fees_recommended u) = Inr fees"
    and "fetchJSON (mempool u) = Inr mp"
    and "fetchJSON (recent_blocks u) = Inr bs"
  shows "fees_handler u settled clock =
     Inr \<lparr>fetchedAt = ISO (clock 0),
          recommended_fastest = \<lparr>satsPerVb = fastestFee fees, estimatedMinutes = Minutes 10\<rparr>,
          recommended_halfHour = \<lparr>satsPerVb = halfHourFee fees, estimatedMinutes = Minutes 30\<rparr>,
          recommended_hour = \<lparr>satsPerVb = hourFee fees, estimatedMinutes = Minutes 60\<rparr>,
          recommended_economy = \<lparr>satsPerVb = economyFee fees, estimatedMinutes = Minutes 120\<rparr>,
          recommended_minimum = \<lparr>satsPerVb = minimumFee fees, estimatedMinutes = Variable\<rparr>,
          mempool_out_count = mempool_count mp,
          mempool_out_vsize = mempool_vsize mp,
          mempool_out_totalFee = mempool_total_fee mp,
          mempool_out_sizeMb = toFixed 2 (Num (of_int (mempool_vsize mp) / 1000000)),
          costEstimates_note = ''Estimates for typical P2PKH transaction (225 vbytes)'',
          costEstimates_fastest = show_int (fastestFee fees * 225) @ '' sats'',
          costEstimates_economy = show_int (economyFee fees * 225) @ '' sats'',
          recentBlocks =
            map (\<lambda>b. \<lparr>rb_height = blk_height b, rb_txCount = blk_tx_count b,
                       rb_size = blk_size b, rb_weight = blk_weight b\<rparr>) (take 6 bs),
          avgBlockTime =
            toFixed 1 (Num (if 1 < length (take 6 bs)
                            then of_int (blk_timestamp (take 6 bs ! 0) -
                                         blk_timestamp (take 6 bs ! (length (take 6 bs) - 1)))
                                   / of_nat (length (take 6 bs) - 1) / 60
                            else 10)) @ '' minutes''\<rparr>"
  using assms by (simp add: fees_handler_def Let_def slice0_nonneg)

lemma fees_handler_fetched:
  assumes "fees_handler u settled clock = Inr out"
  obtains fees mp bs where "fetchJSON (fees_recommended u) = Inr fees"
    and "fetchJSON (mempool u) = Inr mp"
    and "fetchJSON (recent_blocks u) = Inr bs"
proof -
  let ?all = "promise_all3 settled (fetchJSON (fees_recommended u)) (fetchJSON (mempool u))
    (map_sum id (slice0 6) (fetchJSON (recent_blocks u)))"
  from assms obtain v where "?all = Inr v"
    by (cases ?all) (simp_all add: fees_handler_def)
  then have fees: "fetchJSON (fees_recommended u) = Inr (fst v)"
    and mp: "fetchJSON (mempool u) = Inr (fst (snd v))"
    and "map_sum id (slice0 6) (fetchJSON (recent_blocks u)) = Inr (snd (snd v))"
    by (simp_all add: promise_all3_fulfils)
  then obtain bs where "fetchJSON (recent_blocks u) = Inr bs"
    by (cases "fetchJSON (recent_blocks u)") simp_all
  with fees mp show ?thesis by (rule that)
qed

text \<open>
  C7. The fees query samples the first six blocks of the upstream list, which lists the newest
  block first. With at least two sampled blocks the reported average block time is a text
  \<open>s\<close> followed by \<^verbatim>\<open> minutes\<close>, where \<open>s\<close> has exactly one decimal and denotes, to the nearest
  tenth, the timestamp of the first sampled block minus that of the last, divided by the sample
  count minus one and by 60. With fewer than two sampled blocks it is \<^verbatim>\<open>10.0 minutes\<close>.
\<close>

theorem fees_average_block_time:
  assumes "fees_handler u settled clock = Inr out"
  shows "\<exists>bs. fetchJSON (recent_blocks u) = Inr bs \<and>
           length (recentBlocks out) = min 6 (length bs) \<and>
           map rb_height (recentBlocks out) = map blk_height (take 6 bs) \<and>
           (2 \<le> length (take 6 bs) \<longrightarrow>
              (\<exists>s (n::int). avgBlockTime out = s @ '' minutes'' \<and>
                 length (frac_part s) = 1 \<and>
                 decimal_value s = of_int n / 10 \<and>
                 \<bar>of_int n -
                    10 * (of_int (blk_timestamp (hd (take 6 bs)) - blk_timestamp (last (take 6 bs)))
                            / of_nat (length (take 6 bs) - 1) / 60)\<bar> \<le> (1 / 2 :: rat))) \<and>
           (length (take 6 bs) < 2 \<longrightarrow> avgBlockTime out = ''10.0 minutes'')"
proof -
  from assms obtain fees mp bs where f: "fetchJSON (fees_recommended u) = Inr fees"
    and m: "fetchJSON (mempool u) = Inr mp"
    and b: "fetchJSON (recent_blocks u) = Inr bs"
    by (rule fees_handler_fetched)
  let ?sample = "take 6 bs"
  from assms have out: "out = projr (fees_handler u settled clock)" by simp
  have blocks: "recentBlocks out =
      map (\<lambda>b. \<lparr>rb_height = blk_height b, rb_txCount = blk_tx_count b,
                 rb_size = blk_size b, rb_weight = blk_weight b\<rparr>) ?sample"
    and avg: "avgBlockTime out =
      toFixed 1 (Num (if 1 < length ?sample
                      then of_int (blk_timestamp (?sample ! 0) -
                                   blk_timestamp (?sample ! (length ?sample - 1)))
                             / of_nat (length ?sample - 1) / 60
                      else 10)) @ '' minutes''"
    unfolding out fees_handler_success [OF f m b] by simp_all
  have len: "length (recentBlocks out) = min 6 (length bs)"
    unfolding blocks by (simp add: min.commute)
  have heights: "map rb_height (recentBlocks out) = map blk_height ?sample"
    unfolding blocks by simp
  have many: "\<exists>s (n::int). avgBlockTime out = s @ '' minutes'' \<and>
                 length (frac_part s) = 1 \<and>
                 decimal_value s = of_int n / 10 \<and>
                 \<bar>of_int n -
                    10 * (of_int (blk_timestamp (hd ?sample) - blk_timestamp (last ?sample))
                            / of_nat (length ?sample - 1) / 60)\<bar> \<le> (1 / 2 :: rat)"
    if "2 \<le> length ?sample"
  proof -
    let ?x = "of_int (blk_timestamp (hd ?sample) - blk_timestamp (last ?sample))
                / of_nat (length ?sample - 1) / 60 :: rat"
    from that have ne: "?sample \<noteq> []" by auto
    have first: "?sample ! 0 = hd ?sample"
      using ne by (simp add: hd_conv_nth)
    have final: "?sample ! (length ?sample - 1) = last ?sample"
      using ne by (simp add: last_conv_nth)
    have rendered: "avgBlockTime out = toFixed_finite 1 ?x @ '' minutes''"
      unfolding avg first final using that by simp
    from toFixed_finite_nearest [of 1 ?x] obtain n :: int
      where "decimal_value (toFixed_finite 1 ?x) = of_int n / 10"
        and "\<bar>of_int n - ?x * 10\<bar> \<le> 1 / 2"
      by auto
    then have "decimal_value (toFixed_finite 1 ?x) = of_int n / 10 \<and>
        \<bar>of_int n - 10 * ?x\<bar> \<le> 1 / 2"
      by (simp add: mult.commute)
    with rendered frac_part_toFixed_finite [of 1 ?x] show ?thesis by blast
  qed
  have few: "avgBlockTime out = ''10.0 minutes''" if "length ?sample < 2"
  proof -
    from that have "\<not> 1 < length ?sample" by simp
    then show ?thesis unfolding avg
      by (simp add: eval_number split del: if_split)
  qed
  from b len heights many few show ?thesis by blast
qed

theorem fees_average_block_time_witness:
  "fees_handler example_upstream in_turn (clock_at 1700000000000) =
     Inr \<lparr>fetchedAt = ISO 1700000000000,
          recommended_fastest = \<lparr>satsPerVb = 12, estimatedMinutes = Minutes 10\<rparr>,
          recommended_halfHour = \<lparr>satsPerVb = 10, estimatedMinutes = Minutes 30\<rparr>,
          recommended_hour = \<lparr>satsPerVb = 8, estimatedMinutes = Minutes 60\<rparr>,
          recommended_economy = \<lparr>satsPerVb = 4, estimatedMinutes = Minutes 120\<rparr>,
          recommended_minimum = \<lparr>satsPerVb = 2, estimatedMinutes = Variable\<rparr>,
          mempool_out_count = 31000,
          mempool_out_vsize = 45678901,
          mempool_out_totalFee = 123456789,
          mempool_out_sizeMb = ''45.68'',
          costEstimates_note = ''Estimates for typical P2PKH transaction (225 vbytes)'',
          costEstimates_fastest = ''2700 sats'',
          costEstimates_economy = ''900 sats'',
          recentBlocks =
            [\<lparr>rb_height = 800014, rb_txCount = 2000, rb_size = 1500000, rb_weight = 3990000\<rparr>,
             \<lparr>rb_height = 800013, rb_txCount = 2001, rb_size = 1500000, rb_weight = 3990000\<rparr>,
             \<lparr>rb_height = 800012, rb_txCount = 2002, rb_size = 1500000, rb_weight = 3990000\<rparr>,
             \<lparr>rb_height = 800011, rb_txCount = 2003, rb_size = 1500000, rb_weight = 3990000\<rparr>,
             \<lparr>rb_height = 800010, rb_txCount = 2004, rb_size = 1500000, rb_weight = 3990000\<rparr>,
             \<lparr>rb_height = 800009, rb_txCount = 2005, rb_size = 1500000, rb_weight = 3990000\<rparr>],
          avgBlockTime = ''10.9 minutes''\<rparr>
   \<and> 2 \<le> length (take 6 fifteen_blocks)
   \<and> decimal_value ''10.9'' = 109 / 10
   \<and> \<bar>109 - 10 * (of_int (blk_timestamp (hd (take 6 fifteen_blocks)) -
                             blk_timestamp (last (take 6 fifteen_blocks)))
                       / of_nat (length (take 6 fifteen_blocks) - 1) / 60)\<bar> \<le> (1 / 2 :: rat)"
  (is "fees_handler ?u ?s ?c = Inr ?out \<and> ?many \<and> ?val \<and> ?near")
proof -
  have run: "fees_handler ?u ?s ?c = Inr ?out"
    unfolding fees_handler_success [OF example_fetches(1) example_fetches(4) example_fetches(3)]
    by (simp add: example_fees_def example_mempool_def fifteen_blocks_def example_block_def
        clock_at_def eval_number split del: if_split)
  have many: ?many by (simp add: fifteen_blocks_def)
  from fees_average_block_time [OF run] obtain bs where
    bs: "fetchJSON (recent_blocks ?u) = Inr bs"
    and avg: "2 \<le> length (take 6 bs) \<longrightarrow>
              (\<exists>s (n::int). avgBlockTime ?out = s @ '' minutes'' \<and>
                 length (frac_part s) = 1 \<and>
                 decimal_value s = of_int n / 10 \<and>
                 \<bar>of_int n -
                    10 * (of_int (blk_timestamp (hd (take 6 bs)) - blk_timestamp (last (take 6 bs)))
                            / of_nat (length (take 6 bs) - 1) / 60)\<bar> \<le> (1 / 2 :: rat))"
    by blast
  from bs have bs': "bs = fifteen_blocks" by (simp add: example_fetches)
  from avg many obtain s and n :: int where s: "''10.9 minutes'' = s @ '' minutes''"
    and v: "decimal_value s = of_int n / 10"
    and near: "\<bar>of_int n -
                    10 * (of_int (blk_timestamp (hd (take 6 fifteen_blocks)) -
                                  blk_timestamp (last (take 6 fifteen_blocks)))
                            / of_nat (length (take 6 fifteen_blocks) - 1) / 60)\<bar> \<le> (1 / 2 :: rat)"
    unfolding bs' by auto
  from s have s': "s = ''10.9''" by simp
  have val: ?val by (simp add: eval_decimal)
  from v have "n = 109" unfolding s' val by simp
  with near have ?near by simp
  with run many val show ?thesis by blast
qed

subsection \<open>Recent blocks: the limit\<close>

lemma blocks_handler_success:
  assumes "fetchJSON (recent_blocks u) = Inr bs"
    and "slice0 (min (input_limit l) 15) bs \<noteq> []"
  shows "blocks_handler u l clock =
     Inr \<lparr>fetchedAt = ISO (clock 0),
          out_blocks = map block_summary_of (slice0 (min (input_limit l) 15) bs),
          summary_blocksReturned = int (length (slice0 (min (input_limit l) 15) bs)),
          summary_totalTransactions =
            foldl (\<lambda>sum b. sum + blk_tx_count b) 0 (slice0 (min (input_limit l) 15) bs),
          summary_avgTxPerBlock =
            math_round (of_int (foldl (\<lambda>sum b. sum + blk_tx_count b) 0
                                  (slice0 (min (input_limit l) 15) bs))
                        / of_nat (length (slice0 (min (input_limit l) 15) bs))),
          summary_totalSizeMb =
            toFixed 2 (Num (of_int (foldl (\<lambda>sum b. sum + blk_size b) 0
                                      (slice0 (min (input_limit l) 15) bs)) / 1000000)),
          summary_heightRange =
            show_int (blk_height (slice0 (min (input_limit l) 15) bs
                                    ! (length (slice0 (min (input_limit l) 15) bs) - 1))) @
            '' - '' @ show_int (blk_height (slice0 (min (input_limit l) 15) bs ! 0))\<rparr>"
  using assms by (simp add: blocks_handler_def Let_def)

lemma blocks_handler_none_left:
  assumes "fetchJSON (recent_blocks u) = Inr bs"
    and "slice0 (min (input_limit l) 15) bs = []"
  shows "blocks_handler u l clock = Inl TypeError"
  using assms by (simp add: blocks_handler_def Let_def)

text \<open>From 1 upwards the limit is the number of blocks returned, capped at 15, when the
  upstream list has at least 15 blocks.\<close>

lemma blocks_limit_capped:
  assumes "fetchJSON (recent_blocks u) = Inr bs" and "15 \<le> length bs" and "1 \<le> n"
  shows "\<exists>out. blocks_handler u (Some n) clock = Inr out \<and>
           summary_blocksReturned out = min n 15 \<and>
           int (length (out_blocks out)) = min n 15"
proof -
  have sl: "slice0 (min (input_limit (Some n)) 15) bs = take (nat (min n 15)) bs"
    using assms(3) by (simp add: slice0_nonneg input_limit_def)
  have len: "int (length (take (nat (min n 15)) bs)) = min n 15"
    using assms(2,3) by simp
  then have "take (nat (min n 15)) bs \<noteq> []"
    using assms(3) by auto
  then have ne: "slice0 (min (input_limit (Some n)) 15) bs \<noteq> []"
    unfolding sl .
  show ?thesis
    unfolding blocks_handler_success [OF assms(1) ne] sl using len by simp
qed

text \<open>
  C1. The claimed clamping of the limit to the range from 1 to 15 holds from 1 upwards
  (\<open>blocks_limit_capped\<close>; a limit of 100 gives 15 blocks) but the handler has no floor: it
  takes \<^verbatim>\<open>Math.min(limit, 15)\<close> and passes the result to \<^verbatim>\<open>slice(0, limit)\<close>. On an
  upstream list of 15 blocks a limit of 0 leaves no block, and reading the height of the
  last one throws; a limit of -1 returns 14 blocks, all but the last; a limit of -15 throws
  again. The input schema of the source describes the limit as
  \<^verbatim>\<open>Number of blocks (1-15)\<close>.
\<close>

theorem blocks_limit_has_no_floor:
  "map_sum id summary_blocksReturned
     (blocks_handler example_upstream (Some 100) (clock_at 1700000000000)) = Inr 15
   \<and> blocks_handler example_upstream (Some 0) (clock_at 1700000000000) = Inl TypeError
   \<and> map_sum id summary_blocksReturned
       (blocks_handler example_upstream (Some (- 1)) (clock_at 1700000000000)) = Inr 14
   \<and> blocks_handler example_upstream (Some (- 15)) (clock_at 1700000000000) = Inl TypeError"
proof -
  have len: "length fifteen_blocks = 15" by (simp add: fifteen_blocks_def)
  have s100: "slice0 (min (input_limit (Some 100)) 15) fifteen_blocks = fifteen_blocks"
    and s0: "slice0 (min (input_limit (Some 0)) 15) fifteen_blocks = []"
    and s1: "slice0 (min (input_limit (Some (- 1))) 15) fifteen_blocks = take 14 fifteen_blocks"
    and s15: "slice0 (min (input_limit (Some (- 15))) 15) fifteen_blocks = []"
    by (simp_all add: slice0_eval input_limit_def len)
  have ne100: "slice0 (min (input_limit (Some 100)) 15) fifteen_blocks \<noteq> []"
    and ne1: "slice0 (min (input_limit (Some (- 1))) 15) fifteen_blocks \<noteq> []"
    unfolding s100 s1 by (simp_all add: fifteen_blocks_def)
  have "map_sum id summary_blocksReturned
     (blocks_handler example_upstream (Some 100) (clock_at 1700000000000)) = Inr 15"
    unfolding blocks_handler_success [OF example_fetches(3) ne100] s100 by (simp add: len)
  moreover have "blocks_handler example_upstream (Some 0) (clock_at 1700000000000) = Inl TypeError"
    by (rule blocks_handler_none_left [OF example_fetches(3) s0])
  moreover have "map_sum id summary_blocksReturned
       (blocks_handler example_upstream (Some (- 1)) (clock_at 1700000000000)) = Inr 14"
    unfolding blocks_handler_success [OF example_fetches(3) ne1] s1 by (simp add: len)
  moreover have "blocks_handler example_upstream (Some (- 15)) (clock_at 1700000000000) = Inl TypeError"
    by (rule blocks_handler_none_left [OF example_fetches(3) s15])
  ultimately show ?thesis by blast
qed

text \<open>The whole response for a limit of 2.\<close>

lemma blocks_scenario:
  "blocks_handler example_upstream (Some 2) (clock_at 1700000000000) =
     Inr \<lparr>fetchedAt = ISO 1700000000000,
          out_blocks =
            [\<lparr>bs_height = 800014, bs_hash = ''000000000000000000021a5f'',
              bs_timestamp = ISO 1700009000000, bs_txCount = 2000, bs_size = 1500000,
              bs_weight = 3990000, bs_miner = ''Unknown'', bs_reward = None, bs_fees = None\<rparr>,
             \<lparr>bs_height = 800013, bs_hash = ''000000000000000000021a5f'',
              bs_timestamp = ISO 1700008346000, bs_txCount = 2001, bs_size = 1500000,
              bs_weight = 3990000, bs_miner = ''Unknown'', bs_reward = None, bs_fees = None\<rparr>],
          summary_blocksReturned = 2,
          summary_totalTransactions = 4001,
          summary_avgTxPerBlock = 2001,
          summary_totalSizeMb = ''3.00'',
          summary_heightRange = ''800013 - 800014''\<rparr>"
proof -
  have s: "slice0 (min (input_limit (Some 2)) 15) fifteen_blocks = [example_block 0, example_block 1]"
    by (simp add: slice0_eval input_limit_def fifteen_blocks_def)
  then have ne: "slice0 (min (input_limit (Some 2)) 15) fifteen_blocks \<noteq> []" by simp
  show ?thesis
    unfolding blocks_handler_success [OF example_fetches(3) ne] s
    by (simp add: example_block_def block_summary_of_def miner_name_def clock_at_def eval_number
        split del: if_split)
qed

subsection \<open>Network overview: where each field comes from\<close>

lemma overview_success:
  assumes "fetchJSON (fees_recommended u) = Inr fees"
    and "fetchJSON (blockchair_stats u) = Inr stats"
    and "fetchJSON (recent_blocks u) = Inr (latestBlock # rest)"
  shows "overview u settled clock =
     Inr \<lparr>fetchedAt = ISO (clock 0),
          network_blockHeight = blk_height latestBlock,
          network_difficulty = difficulty (stats_data stats),
          network_hashrate = hashrate_24h (stats_data stats),
          network_mempoolTxs = mempool_transactions (stats_data stats),
          network_mempoolSize = mempool_size (stats_data stats),
          fees_fastest = fastestFee fees,
          fees_halfHour = halfHourFee fees,
          fees_hour = hourFee fees,
          fees_economy = economyFee fees,
          fees_minimum = minimumFee fees,
          fees_unit = ''sat/vB'',
          price_usd = market_price_usd (stats_data stats),
          latestBlock_height = blk_height latestBlock,
          latestBlock_timestamp = ISO (blk_timestamp latestBlock * 1000),
          latestBlock_txCount = blk_tx_count latestBlock,
          latestBlock_size = blk_size latestBlock,
          dataSources = [''mempool.space'', ''blockchair.com'']\<rparr>"
  using assms by (simp add: overview_def Let_def)

lemma overview_fetched:
  assumes "overview u settled clock = Inr out"
  obtains fees stats latestBlock rest where "fetchJSON (fees_recommended u) = Inr fees"
    and "fetchJSON (blockchair_stats u) = Inr stats"
    and "fetchJSON (recent_blocks u) = Inr (latestBlock # rest)"
proof -
  let ?all = "promise_all3 settled (fetchJSON (fees_recommended u)) (fetchJSON (blockchair_stats u))
    (fetchJSON (recent_blocks u))"
  from assms obtain v where v: "?all = Inr v"
    by (cases ?all) (simp_all add: overview_def)
  then have fees: "fetchJSON (fees_recommended u) = Inr (fst v)"
    and stats: "fetchJSON (blockchair_stats u) = Inr (fst (snd v))"
    and bs: "fetchJSON (recent_blocks u) = Inr (snd (snd v))"
    by (simp_all add: promise_all3_fulfils)
  show ?thesis
  proof (cases "snd (snd v)")
    case Nil
    with assms fees stats bs show ?thesis by (simp add: overview_def)
  next
    case (Cons latestBlock rest)
    with fees stats bs that show ?thesis by simp
  qed
qed

lemma overview_fields:
  assumes "overview u settled clock = Inr out"
  shows "\<exists>fees stats latestBlock rest.
           fetchJSON (fees_recommended u) = Inr fees \<and>
           fetchJSON (blockchair_stats u) = Inr stats \<and>
           fetchJSON (recent_blocks u) = Inr (latestBlock # rest) \<and>
           network_blockHeight out = blk_height latestBlock \<and>
           network_difficulty out = difficulty (stats_data stats) \<and>
           fees_fastest out = fastestFee fees \<and> fees_halfHour out = halfHourFee fees \<and>
           fees_hour out = hourFee fees \<and> fees_economy out = economyFee fees \<and>
           fees_minimum out = minimumFee fees"
proof -
  from assms obtain fees stats latestBlock rest where f: "fetchJSON (fees_recommended u) = Inr fees"
    and s: "fetchJSON (blockchair_stats u) = Inr stats"
    and b: "fetchJSON (recent_blocks u) = Inr (latestBlock # rest)"
    by (rule overview_fetched)
  from assms have "out = projr (overview u settled clock)" by simp
  then have "network_blockHeight out = blk_height latestBlock \<and>
           network_difficulty out = difficulty (stats_data stats) \<and>
           fees_fastest out = fastestFee fees \<and> fees_halfHour out = halfHourFee fees \<and>
           fees_hour out = hourFee fees \<and> fees_economy out = economyFee fees \<and>
           fees_minimum out = minimumFee fees"
    unfolding overview_success [OF f s b] by simp
  with f s b show ?thesis by blast
qed

text \<open>
  C9, as the code has it. The block height is the height of the first block of the
  mempool.space recent-blocks response and depends on no other response; the difficulty is
  read from the blockchair.com statistics response and depends on no other response; the fee
  tiers are read from the mempool.space fee-recommendation response and depend on no other
  response. So the block height and the difficulty come from two different providers, and the
  block height shares its provider, not its response, with the fee tiers.
\<close>

theorem overview_field_sources:
  assumes "overview u settled clock = Inr out" and "overview u' settled' clock' = Inr out'"
  shows "(recent_blocks u = recent_blocks u' \<longrightarrow>
            network_blockHeight out = network_blockHeight out') \<and>
         (blockchair_stats u = blockchair_stats u' \<longrightarrow>
            network_difficulty out = network_difficulty out') \<and>
         (fees_recommended u = fees_recommended u' \<longrightarrow>
            fees_fastest out = fees_fastest out' \<and> fees_halfHour out = fees_halfHour out' \<and>
            fees_hour out = fees_hour out' \<and> fees_economy out = fees_economy out' \<and>
            fees_minimum out = fees_minimum out')"
  using overview_fields [OF assms(1)] overview_fields [OF assms(2)] by auto

theorem overview_field_sources_witness:
  "\<exists>out out' out''.
     overview example_upstream in_turn (clock_at 1700000000000) = Inr out \<and>
     overview (example_upstream\<lparr>blockchair_stats :=
                 Response 200 (Some \<lparr>stats_data = \<lparr>difficulty = 1, hashrate_24h = ''1'',
                   mempool_transactions = 1, mempool_size = 1, market_price_usd = 1\<rparr>\<rparr>)\<rparr>)
       in_turn (clock_at 1700000000000) = Inr out' \<and>
     overview (example_upstream\<lparr>recent_blocks := Response 200 (Some [example_block 1]),
                 fees_recommended := Response 200 (Some \<lparr>fastestFee = 5, halfHourFee = 4,
                   hourFee = 3, economyFee = 2, minimumFee = 1\<rparr>)\<rparr>)
       in_turn (clock_at 1700000000000) = Inr out'' \<and>
     network_blockHeight out = 800014 \<and> network_blockHeight out' = 800014 \<and>
     fees_fastest out = 12 \<and> fees_fastest out' = 12 \<and>
     network_difficulty out = 62463471666732 \<and> network_difficulty out'' = 62463471666732"
proof -
  let ?c = "clock_at 1700000000000"
  let ?u = example_upstream
  let ?u' = "example_upstream\<lparr>blockchair_stats :=
                 Response 200 (Some \<lparr>stats_data = \<lparr>difficulty = 1, hashrate_24h = ''1'',
                   mempool_transactions = 1, mempool_size = 1, market_price_usd = 1\<rparr>\<rparr>)\<rparr>"
  let ?u'' = "example_upstream\<lparr>recent_blocks := Response 200 (Some [example_block 1]),
                 fees_recommended := Response 200 (Some \<lparr>fastestFee = 5, halfHourFee = 4,
                   hourFee = 3, economyFee = 2, minimumFee = 1\<rparr>)\<rparr>"
  let ?out = "projr (overview ?u in_turn ?c)"
  let ?out' = "projr (overview ?u' in_turn ?c)"
  let ?out'' = "projr (overview ?u'' in_turn ?c)"
  have blocks: "fetchJSON (recent_blocks ?u) = Inr (example_block 0 # tl fifteen_blocks)"
    "fetchJSON (recent_blocks ?u') = Inr (example_block 0 # tl fifteen_blocks)"
    "fetchJSON (recent_blocks ?u'') = Inr [example_block 1]"
    by (simp_all add: example_upstream_def fifteen_blocks_def)
  have stats: "fetchJSON (blockchair_stats ?u') =
      Inr \<lparr>stats_data = \<lparr>difficulty = 1, hashrate_24h = ''1'',
                   mempool_transactions = 1, mempool_size = 1, market_price_usd = 1\<rparr>\<rparr>"
    "fetchJSON (blockchair_stats ?u'') = Inr example_stats"
    by (simp_all add: example_upstream_def)
  have fees: "fetchJSON (fees_recommended ?u') = Inr example_fees"
    "fetchJSON (fees_recommended ?u'') = Inr \<lparr>fastestFee = 5, halfHourFee = 4,
                   hourFee = 3, economyFee = 2, minimumFee = 1\<rparr>"
    by (simp_all add: example_upstream_def)
  have run: "overview ?u in_turn ?c = Inr ?out"
    unfolding overview_success [OF example_fetches(1) example_fetches(2) blocks(1)] by simp
  have run': "overview ?u' in_turn ?c = Inr ?out'"
    unfolding overview_success [OF fees(1) stats(1) blocks(2)] by simp
  have run'': "overview ?u'' in_turn ?c = Inr ?out''"
    unfolding overview_success [OF fees(2) stats(2) blocks(3)] by simp
  have same: "recent_blocks ?u = recent_blocks ?u'"
    "fees_recommended ?u = fees_recommended ?u'"
    "blockchair_stats ?u = blockchair_stats ?u''"
    by simp_all
  have h: "network_blockHeight ?out = 800014" and f: "fees_fastest ?out = 12"
    and d: "network_difficulty ?out = 62463471666732"
    unfolding overview_success [OF example_fetches(1) example_fetches(2) blocks(1)]
    by (simp_all add: example_block_def example_fees_def example_stats_def)
  from overview_field_sources [OF run run'] same(1,2)
  have "network_blockHeight ?out = network_blockHeight ?out'"
    and "fees_fastest ?out = fees_fastest ?out'"
    by blast+
  with h f have h': "network_blockHeight ?out' = 800014" and f': "fees_fastest ?out' = 12"
    by simp_all
  from overview_field_sources [OF run run''] same(3)
  have "network_difficulty ?out = network_difficulty ?out''" by blast
  with d have d'': "network_difficulty ?out'' = 62463471666732" by simp
  show ?thesis
    by (intro exI conjI) (rule run run' run'' h h' f f' d d'')+
qed

text \<open>
  C9, as the claim has it, fails. Replacing only the recent-blocks response of mempool.space
  changes the block height and leaves the difficulty as it was; replacing only the statistics
  response of blockchair.com changes the difficulty and leaves the block height as it was. No
  single response, and no single provider, determines both.
\<close>

theorem overview_one_provider_counterexample:
  "map_sum id network_blockHeight
     (overview (example_upstream\<lparr>recent_blocks := Response 200 (Some [example_block 1])\<rparr>)
        in_turn (clock_at 1700000000000)) = Inr 800013
   \<and> map_sum id network_blockHeight (overview example_upstream in_turn (clock_at 1700000000000)) = Inr 800014
   \<and> map_sum id network_difficulty
       (overview (example_upstream\<lparr>recent_blocks := Response 200 (Some [example_block 1])\<rparr>)
          in_turn (clock_at 1700000000000)) = Inr 62463471666732
   \<and> map_sum id network_difficulty (overview example_upstream in_turn (clock_at 1700000000000))
       = Inr 62463471666732
   \<and> map_sum id network_difficulty
       (overview (example_upstream\<lparr>blockchair_stats := Response 200 (Some
            \<lparr>stats_data = \<lparr>difficulty = 1, hashrate_24h = ''1'', mempool_transactions = 1,
               mempool_size = 1, market_price_usd = 1\<rparr>\<rparr>)\<rparr>)
          in_turn (clock_at 1700000000000)) = Inr 1
   \<and> map_sum id network_blockHeight
       (overview (example_upstream\<lparr>blockchair_stats := Response 200 (Some
            \<lparr>stats_data = \<lparr>difficulty = 1, hashrate_24h = ''1'', mempool_transactions = 1,
               mempool_size = 1, market_price_usd = 1\<rparr>\<rparr>)\<rparr>)
          in_turn (clock_at 1700000000000)) = Inr 800014"
  by (simp add: overview_def Let_def example_upstream_def fifteen_blocks_def example_block_def
      example_stats_def)

subsection \<open>Address report: recent activity and the clock\<close>

lemma reads_before_0: "reads_before ts 0 = 0"
  by (simp add: reads_before_def)

lemma reads_before_Suc:
  "reads_before (t # ts) (Suc i) =
     (if truthy_int (status_block_time (status t)) = None then 0 else 1) + reads_before ts i"
  by (simp add: reads_before_def)

lemma recent_tx_at_missing: "truthy_int (status_block_time (status t)) = None \<Longrightarrow> \<not> recent_tx_at now t"
  by (simp add: recent_tx_at_def)

text \<open>The verdict of \<open>some_recent\<close>: some transaction is recent at the reading taken for it.\<close>

lemma some_recent_verdict:
  "fst (some_recent clock k ts) \<longleftrightarrow>
     (\<exists>i<length ts. recent_tx_at (clock (k + reads_before ts i)) (ts ! i))"
proof (induction ts arbitrary: k)
  case Nil
  show ?case by simp
next
  case (Cons t ts)
  have shift: "(\<exists>i<length (t # ts). P i) \<longleftrightarrow> P 0 \<or> (\<exists>i<length ts. P (Suc i))" for P
    by (auto simp: less_Suc_eq_0_disj)
  show ?case
  proof (cases "truthy_int (status_block_time (status t))")
    case None
    then show ?thesis
      unfolding shift
      by (simp add: Cons.IH reads_before_0 reads_before_Suc recent_tx_at_missing)
  next
    case (Some bt)
    show ?thesis
    proof (cases "recent_tx_at (clock k) t")
      case True
      then show ?thesis
        unfolding shift using Some by (simp add: recent_tx_at_def reads_before_0)
    next
      case False
      then show ?thesis
        unfolding shift using Some
        by (simp add: recent_tx_at_def Cons.IH reads_before_0 reads_before_Suc)
    qed
  qed
qed

lemma some_recent_one_reading:
  assumes "\<forall>j. clock j = now"
  shows "fst (some_recent clock k ts) \<longleftrightarrow> (\<exists>t\<in>set ts. recent_tx_at now t)"
proof -
  have "(\<exists>i<length ts. recent_tx_at now (ts ! i)) \<longleftrightarrow> (\<exists>t\<in>set ts. recent_tx_at now t)"
    by (metis in_set_conv_nth)
  then show ?thesis
    unfolding some_recent_verdict by (simp add: assms)
qed

text \<open>
  C6, as the code has it. Whenever the address and ticker fetches succeed the report
  succeeds, whatever the block times of the fetched transactions are, present or missing.
  \<open>hasRecentActivity\<close> holds exactly when some transaction of the fetched history has a
  block time that is present and not zero and lies less than 86,400 * 30 seconds before the
  clock reading taken for that transaction: the callback reads the clock anew for every
  transaction with a block time, and the handler reads it once more for \<open>fetchedAt\<close>. When
  all readings of a request are one instant, that instant is the capture time of the claim. A
  transaction whose block time is missing is not recent at any instant and uses no reading.
\<close>

theorem recent_activity_per_reading:
  assumes "fetchJSON (address_info u a) = Inr d"
    and "catch_default [] (fetchJSON (address_txs u a)) = Inr txs"
    and "fetchJSON (ticker u) = Inr tk"
  shows "\<exists>out. address_report u a settled clock = Inr out \<and>
           (hasRecentActivity out \<longleftrightarrow>
              (\<exists>i<length txs. recent_tx_at (clock (reads_before txs i)) (txs ! i))) \<and>
           ((\<forall>j. clock j = now) \<longrightarrow>
              (hasRecentActivity out \<longleftrightarrow> (\<exists>t\<in>set txs. recent_tx_at now t))) \<and>
           (\<forall>t instant. status_block_time (status t) = None \<longrightarrow> \<not> recent_tx_at instant t)"
proof -
  let ?out = "projr (address_report u a settled clock)"
  have run: "address_report u a settled clock = Inr ?out"
    unfolding address_report_success [OF assms] by simp
  have verdict: "hasRecentActivity ?out = fst (some_recent clock 0 txs)"
    unfolding address_report_success [OF assms] by simp
  have general: "hasRecentActivity ?out \<longleftrightarrow>
      (\<exists>i<length txs. recent_tx_at (clock (reads_before txs i)) (txs ! i))"
    unfolding verdict some_recent_verdict by simp
  have single: "hasRecentActivity ?out \<longleftrightarrow> (\<exists>t\<in>set txs. recent_tx_at now t)"
    if "\<forall>j. clock j = now"
    unfolding verdict by (rule some_recent_one_reading [OF that])
  have missing: "\<not> recent_tx_at instant t" if "status_block_time (status t) = None" for t instant
    using that by (simp add: recent_tx_at_def)
  from run general single missing show ?thesis by blast
qed

theorem recent_activity_per_reading_witness:
  "fetchJSON (address_info example_upstream ''bc1qme'') = Inr example_address
   \<and> catch_default [] (fetchJSON (address_txs example_upstream ''bc1qme''))
       = Inr [pending_tx, spend_tx 1700000000]
   \<and> fetchJSON (ticker example_upstream) = Inr example_ticker
   \<and> (\<forall>j. clock_at 1700000000000 j = 1700000000000)
   \<and> (\<exists>out. address_report example_upstream ''bc1qme'' in_turn (clock_at 1700000000000) = Inr out \<and>
             hasRecentActivity out)
   \<and> recent_tx_at 1700000000000 (spend_tx 1700000000)
   \<and> status_block_time (status pending_tx) = None
   \<and> \<not> recent_tx_at 1700000000000 pending_tx"
  (is "?d \<and> ?txs \<and> ?tk \<and> ?one \<and> ?run \<and> ?recent \<and> ?none \<and> ?not")
proof -
  have d: ?d and txs: ?txs and tk: ?tk
    by (simp_all add: example_fetches)
  have one: ?one by (simp add: clock_at_def)
  have recent: ?recent
    by (simp add: recent_tx_at_def spend_tx_def)
  have none: ?none by (simp add: pending_tx_def)
  from recent_activity_per_reading
    [OF d txs tk, where settled = in_turn and clock = "clock_at 1700000000000" and now = 1700000000000]
  obtain out where run: "address_report example_upstream ''bc1qme'' in_turn (clock_at 1700000000000) = Inr out"
    and single: "(\<forall>j. clock_at 1700000000000 j = 1700000000000) \<longrightarrow>
        (hasRecentActivity out \<longleftrightarrow>
           (\<exists>t\<in>set [pending_tx, spend_tx 1700000000]. recent_tx_at 1700000000000 t))"
    and missing: "\<forall>t instant. status_block_time (status t) = None \<longrightarrow> \<not> recent_tx_at instant t"
    by blast
  from single one recent have "hasRecentActivity out" by simp
  with run have run': ?run by blast
  from missing none have not: ?not by blast
  from d txs tk one run' recent none not show ?thesis by blast
qed

text \<open>
  C6, as the claim has it, fails when the clock advances within a request. The transaction
  \<open>spend_tx 1700000000\<close> was confirmed 30 days before the instant 1702592000000. The callback
  reads the clock one millisecond before that instant and accepts the transaction; the handler
  then reads the clock for \<open>fetchedAt\<close> at that instant. The response says
  \<open>hasRecentActivity\<close> although, at the capture time it reports, no fetched transaction is
  less than 30 days old.
\<close>

theorem recent_activity_single_capture_counterexample:
  "fetchJSON (address_txs example_upstream ''bc1qme'') = Inr [pending_tx, spend_tx 1700000000]
   \<and> address_report example_upstream ''bc1qme'' in_turn (ticking_from 1702591999999) =
     Inr \<lparr>fetchedAt = ISO 1702592000000,
          report_address = ''bc1qme'',
          report_balance_btc = ''3.00000000'',
          report_balance_sats = 300000000,
          report_balance_usd = ''109500.00'',
          activity_totalTransactions = 5,
          activity_totalReceived = ''5.00000000'',
          activity_totalSpent = ''2.00000000'',
          activity_utxoCount = 4,
          isActive = False,
          isWhale = False,
          hasRecentActivity = True,
          recentTransactions =
            [\<lparr>rt_txid = ''cd34'', rt_confirmed = False, rt_blockHeight = None, rt_timestamp = None,
              rt_type = ''incoming'', rt_amount = ''0.00002500''\<rparr>,
             \<lparr>rt_txid = ''ab12'', rt_confirmed = True, rt_blockHeight = Some 800000,
              rt_timestamp = Some (ISO 1700000000000), rt_type = ''outgoing'',
              rt_amount = ''0.00000000''\<rparr>],
          pricing_btcUsd = 36500\<rparr>
   \<and> \<not> list_ex (recent_tx_at 1702592000000) [pending_tx, spend_tx 1700000000]
   \<and> list_ex (recent_tx_at 1702591999999) [pending_tx, spend_tx 1700000000]"
  (is "?txs \<and> address_report ?u ?a ?s ?c = Inr ?out \<and> ?late \<and> ?early")
proof -
  have txs: ?txs by (simp add: example_fetches)
  then have txs': "catch_default [] (fetchJSON (address_txs ?u ?a)) = Inr [pending_tx, spend_tx 1700000000]"
    by simp
  have run: "address_report ?u ?a ?s ?c = Inr ?out"
    unfolding address_report_success [OF example_fetches(5) txs' example_fetches(8)]
    by (simp add: example_address_def example_ticker_def pending_tx_def spend_tx_def
        ticking_from_def recent_entry_eval prevout_address_def eval_number split del: if_split)
  have late: ?late and early: ?early
    by (simp_all add: recent_tx_at_def pending_tx_def spend_tx_def)
  from txs run late early show ?thesis by blast
qed

subsection \<open>All queries: what depends on the clock\<close>

lemma overview_clock: "up_to_stamp (overview u s c) = up_to_stamp (overview u s' c')"
proof (cases "\<exists>out. overview u s c = Inr out")
  case True
  then obtain out where "overview u s c = Inr out" ..
  then obtain fees stats latestBlock rest where f: "fetchJSON (fees_recommended u) = Inr fees"
    and st: "fetchJSON (blockchair_stats u) = Inr stats"
    and b: "fetchJSON (recent_blocks u) = Inr (latestBlock # rest)"
    by (rule overview_fetched)
  show ?thesis
    unfolding overview_success [OF f st b]
    by (simp add: up_to_stamp_def output_of_def unstamped_def)
next
  case False
  have "\<not> (\<exists>out. overview u s' c' = Inr out)"
  proof
    assume "\<exists>out. overview u s' c' = Inr out"
    then obtain out where "overview u s' c' = Inr out" ..
    then obtain fees stats latestBlock rest where f: "fetchJSON (fees_recommended u) = Inr fees"
      and st: "fetchJSON (blockchair_stats u) = Inr stats"
      and b: "fetchJSON (recent_blocks u) = Inr (latestBlock # rest)"
      by (rule overview_fetched)
    from overview_success [OF f st b] have "\<exists>out. overview u s c = Inr out" by blast
    with False show False ..
  qed
  with False show ?thesis
    by (cases "overview u s c"; cases "overview u s' c'") (simp_all add: up_to_stamp_def output_of_def)
qed

lemma address_handler_clock:
  "up_to_stamp (address_handler u a c) = up_to_stamp (address_handler u a c')"
proof (cases "fetchJSON (address_info u a)")
  case (Inl e)
  then show ?thesis by (simp add: address_handler_def)
next
  case (Inr d)
  show ?thesis
    unfolding address_handler_success [OF Inr]
    by (simp add: up_to_stamp_def output_of_def unstamped_def)
qed

lemma transaction_handler_clock:
  "up_to_stamp (transaction_handler u i c) = up_to_stamp (transaction_handler u i c')"
proof (cases "fetchJSON (tx_info u i)")
  case (Inl e)
  then show ?thesis by (simp add: transaction_handler_def)
next
  case (Inr t)
  show ?thesis
    unfolding transaction_handler_success [OF Inr]
    by (simp add: up_to_stamp_def output_of_def unstamped_def)
qed

lemma fees_handler_clock: "up_to_stamp (fees_handler u s c) = up_to_stamp (fees_handler u s' c')"
proof (cases "\<exists>out. fees_handler u s c = Inr out")
  case True
  then obtain out where "fees_handler u s c = Inr out" ..
  then obtain fees mp bs where f: "fetchJSON (fees_recommended u) = Inr fees"
    and m: "fetchJSON (mempool u) = Inr mp"
    and b: "fetchJSON (recent_blocks u) = Inr bs"
    by (rule fees_handler_fetched)
  show ?thesis
    unfolding fees_handler_success [OF f m b]
    by (simp add: up_to_stamp_def output_of_def unstamped_def)
next
  case False
  have "\<not> (\<exists>out. fees_handler u s' c' = Inr out)"
  proof
    assume "\<exists>out. fees_handler u s' c' = Inr out"
    then obtain out where "fees_handler u s' c' = Inr out" ..
    then obtain fees mp bs where f: "fetchJSON (fees_recommended u) = Inr fees"
      and m: "fetchJSON (mempool u) = Inr mp"
      and b: "fetchJSON (recent_blocks u) = Inr bs"
      by (rule fees_handler_fetched)
    from fees_handler_success [OF f m b] have "\<exists>out. fees_handler u s c = Inr out" by blast
    with False show False ..
  qed
  with False show ?thesis
    by (cases "fees_handler u s c"; cases "fees_handler u s' c'")
      (simp_all add: up_to_stamp_def output_of_def)
qed

lemma blocks_handler_clock:
  "up_to_stamp (blocks_handler u l c) = up_to_stamp (blocks_handler u l c')"
proof (cases "fetchJSON (recent_blocks u)")
  case (Inl e)
  then show ?thesis by (simp add: blocks_handler_def Let_def)
next
  case (Inr bs)
  show ?thesis
  proof (cases "slice0 (min (input_limit l) 15) bs = []")
    case True
    show ?thesis unfolding blocks_handler_none_left [OF Inr True] ..
  next
    case False
    show ?thesis
      unfolding blocks_handler_success [OF Inr False]
      by (simp add: up_to_stamp_def output_of_def unstamped_def)
  qed
qed

lemma address_report_clock:
  "up_to_clock (address_report u a s c) = up_to_clock (address_report u a s' c')"
proof (cases "\<exists>out. address_report u a s c = Inr out")
  case True
  then obtain out where "address_report u a s c = Inr out" ..
  then obtain d txs tk where d: "fetchJSON (address_info u a) = Inr d"
    and txs: "catch_default [] (fetchJSON (address_txs u a)) = Inr txs"
    and tk: "fetchJSON (ticker u) = Inr tk"
    by (rule address_report_fetched)
  show ?thesis
    unfolding address_report_success [OF d txs tk]
    by (simp add: up_to_clock_def output_of_def unstamped_def)
next
  case False
  have "\<not> (\<exists>out. address_report u a s' c' = Inr out)"
  proof
    assume "\<exists>out. address_report u a s' c' = Inr out"
    then obtain out where "address_report u a s' c' = Inr out" ..
    then obtain d txs tk where d: "fetchJSON (address_info u a) = Inr d"
      and txs: "catch_default [] (fetchJSON (address_txs u a)) = Inr txs"
      and tk: "fetchJSON (ticker u) = Inr tk"
      by (rule address_report_fetched)
    from address_report_success [OF d txs tk] have "\<exists>out. address_report u a s c = Inr out"
      by blast
    with False show False ..
  qed
  with False show ?thesis
    by (cases "address_report u a s c"; cases "address_report u a s' c'")
      (simp_all add: up_to_clock_def output_of_def)
qed

text \<open>When several fetches fail, the error of the run is the one that settles first: the
  same snapshot gives the status error in one run and the parse error in another. The errors
  of two runs are therefore not compared below.\<close>

lemma overview_error_follows_settle_order:
  "overview (example_upstream\<lparr>fees_recommended := Response 500 None,
      blockchair_stats := Response 200 None\<rparr>) in_turn c = Inl (ApiError 500)
   \<and> overview (example_upstream\<lparr>fees_recommended := Response 500 None,
      blockchair_stats := Response 200 None\<rparr>) in_reverse c = Inl ParseError"
  by (simp add: overview_def example_upstream_def in_turn_def in_reverse_def)

text \<open>
  C8, as the code has it. For the same input and the same upstream snapshot, two runs of a
  query, each with its own clock readings and its own settle order of the fetches, either
  both produce an output object or both produce none, and the two output objects are equal
  up to \<open>fetchedAt\<close> for the overview, address, transaction, fees and blocks queries, and
  equal up to \<open>fetchedAt\<close> and \<open>hasRecentActivity\<close> for the address report.
\<close>

theorem reruns_agree_up_to_clock:
  "up_to_stamp (overview u s c) = up_to_stamp (overview u s' c')
   \<and> up_to_stamp (address_handler u a c) = up_to_stamp (address_handler u a c')
   \<and> up_to_stamp (transaction_handler u i c) = up_to_stamp (transaction_handler u i c')
   \<and> up_to_stamp (fees_handler u s c) = up_to_stamp (fees_handler u s' c')
   \<and> up_to_stamp (blocks_handler u l c) = up_to_stamp (blocks_handler u l c')
   \<and> up_to_clock (address_report u a s c) = up_to_clock (address_report u a s' c')"
  by (intro conjI overview_clock address_handler_clock transaction_handler_clock
      fees_handler_clock blocks_handler_clock address_report_clock)

theorem reruns_agree_up_to_clock_witness:
  "up_to_stamp (overview example_upstream in_turn (clock_at 1700000000000))
     = up_to_stamp (overview example_upstream in_reverse (clock_at 1800000000000))
   \<and> up_to_stamp (address_handler example_upstream ''bc1qme'' (clock_at 1700000000000))
     = up_to_stamp (address_handler example_upstream ''bc1qme'' (clock_at 1800000000000))
   \<and> up_to_stamp (transaction_handler example_upstream ''ab12'' (clock_at 1700000000000))
     = up_to_stamp (transaction_handler example_upstream ''ab12'' (clock_at 1800000000000))
   \<and> up_to_stamp (fees_handler example_upstream in_turn (clock_at 1700000000000))
     = up_to_stamp (fees_handler example_upstream in_reverse (clock_at 1800000000000))
   \<and> up_to_stamp (blocks_handler example_upstream (Some 3) (clock_at 1700000000000))
     = up_to_stamp (blocks_handler example_upstream (Some 3) (clock_at 1800000000000))
   \<and> up_to_clock (address_report example_upstream ''bc1qme'' in_turn (clock_at 1700000000000))
     = up_to_clock (address_report example_upstream ''bc1qme'' in_reverse (clock_at 1800000000000))"
  by (rule reruns_agree_up_to_clock)

lemma stamp_keeps_recent_activity:
  "map_option hasRecentActivity (up_to_stamp r) = map_option hasRecentActivity (output_of r)"
  by (cases r) (simp_all add: up_to_stamp_def output_of_def unstamped_def)

text \<open>
  C8, as the claim has it, fails for the address report. With the same address and the same
  snapshot, a run whose clock reads 1700000000000 reports recent activity and a run whose
  clock reads 1800000000000 does not: the two output objects differ in a field other than
  \<open>fetchedAt\<close>.
\<close>

theorem rerun_recent_activity_counterexample:
  "up_to_stamp (address_report example_upstream ''bc1qme'' in_turn (clock_at 1700000000000))
     \<noteq> up_to_stamp (address_report example_upstream ''bc1qme'' in_turn (clock_at 1800000000000))"
proof
  let ?r = "address_report example_upstream ''bc1qme'' in_turn (clock_at 1700000000000)"
  let ?r' = "address_report example_upstream ''bc1qme'' in_turn (clock_at 1800000000000)"
  have txs: "catch_default [] (fetchJSON (address_txs example_upstream ''bc1qme''))
      = Inr [pending_tx, spend_tx 1700000000]"
    by (simp add: example_fetches)
  have early: "map_option hasRecentActivity (output_of ?r) = Some True"
    unfolding address_report_success [OF example_fetches(5) txs example_fetches(8)]
    by (simp add: output_of_def pending_tx_def spend_tx_def clock_at_def)
  have late: "map_option hasRecentActivity (output_of ?r') = Some False"
    unfolding address_report_success [OF example_fetches(5) txs example_fetches(8)]
    by (simp add: output_of_def pending_tx_def spend_tx_def clock_at_def)
  assume "up_to_stamp ?r = up_to_stamp ?r'"
  then have "map_option hasRecentActivity (up_to_stamp ?r)
      = map_option hasRecentActivity (up_to_stamp ?r')"
    by (rule arg_cong)
  then show False
    unfolding stamp_keeps_recent_activity early late by simp
qed

section \<open>Binary64 arithmetic\<close>

text \<open>The handlers above compute with exact numbers. JavaScript rounds every quotient,
  product and difference to binary64. This section shows that the rounding does not change
  what the properties above say, for inputs in ranges far beyond those of the Bitcoin
  network, and bounds what it does to the dollar value of the address report, whose text
  can differ from the one of the exact product at a decimal tie.\<close>

lemma binary64_zero: "binary64 0"
  unfolding binary64_def
  by (rule exI [of _ "0 :: int"], rule exI [of _ "0 :: nat"], rule exI [of _ "0 :: nat"]) simp

text \<open>Below \<open>2^26\<close> the binary64 numbers are at most \<open>2^-27\<close> apart.\<close>

lemma binary64_close:
  assumes "\<bar>x\<bar> \<le> 2 ^ 26 - 1 / 2 ^ 27"
  shows "\<exists>z. binary64 z \<and> \<bar>x - z\<bar> \<le> 1 / 2 ^ 28"
proof -
  define m where "m = \<lfloor>x * 2 ^ 27 + 1 / 2\<rfloor>"
  have lo: "of_int m \<le> x * 2 ^ 27 + 1 / 2" and hi: "x * 2 ^ 27 + 1 / 2 < of_int m + 1"
    unfolding m_def by linarith+
  from assms have x: "- (2 ^ 26 - 1 / 2 ^ 27) \<le> x" "x \<le> 2 ^ 26 - 1 / 2 ^ 27"
    by (simp_all add: abs_le_iff)
  have "x * 2 ^ 27 \<le> (2 ^ 26 - 1 / 2 ^ 27) * 2 ^ 27"
    using x(2) by (simp only: mult_right_mono zero_le_numeral zero_le_power)
  then have up: "x * 2 ^ 27 \<le> 2 ^ 53 - 1" by simp
  have "- (2 ^ 26 - 1 / 2 ^ 27) * 2 ^ 27 \<le> x * 2 ^ 27"
    using x(1) by (simp only: mult_right_mono zero_le_numeral zero_le_power)
  then have down: "- (2 ^ 53 - 1) \<le> x * 2 ^ 27" by simp
  from lo up have "(of_int m :: rat) < 2 ^ 53" by linarith
  then have m_up: "m < 2 ^ 53" by simp
  from hi down have "- (2 ^ 53 :: rat) < of_int m" by linarith
  then have m_down: "- (2 ^ 53) < m" by simp
  have bin: "binary64 (of_int m * 2 ^ 0 / 2 ^ 27)"
    unfolding binary64_def
    by (rule exI [of _ m], rule exI [of _ "0 :: nat"], rule exI [of _ "27 :: nat"])
      (use m_up m_down in \<open>simp add: abs_less_iff\<close>)
  have near: "\<bar>x * 2 ^ 27 - of_int m\<bar> \<le> 1 / 2" using lo hi by linarith
  have "x - of_int m / 2 ^ 27 = (x * 2 ^ 27 - of_int m) / 2 ^ 27"
    by (simp add: diff_divide_distrib)
  then have "\<bar>x - of_int m / 2 ^ 27\<bar> = \<bar>x * 2 ^ 27 - of_int m\<bar> / 2 ^ 27"
    by (simp only: abs_divide) simp
  also have "\<dots> \<le> (1 / 2) / 2 ^ 27"
    using near by (rule divide_right_mono) simp
  finally have "\<bar>x - of_int m / 2 ^ 27\<bar> \<le> 1 / 2 ^ 28" by simp
  with bin show ?thesis by auto
qed

lemma nearest_binary64_close:
  assumes "nearest_binary64 x y" and "\<bar>x\<bar> \<le> 2 ^ 26 - 1 / 2 ^ 27"
  shows "\<bar>x - y\<bar> \<le> 1 / 2 ^ 28"
proof -
  from binary64_close [OF assms(2)] obtain z where "binary64 z" and "\<bar>x - z\<bar> \<le> 1 / 2 ^ 28"
    by blast
  with assms(1) show ?thesis unfolding nearest_binary64_def by force
qed

lemma toFixed_digits_stable:
  assumes "\<bar>y * 10 ^ f - of_int k\<bar> < 1 / 2"
  shows "toFixed_digits f \<bar>y\<bar> = nat \<bar>k\<bar>"
proof -
  have "\<bar>\<bar>y * 10 ^ f\<bar> - \<bar>of_int k\<bar>\<bar> \<le> \<bar>y * 10 ^ f - of_int k\<bar>"
    by (rule abs_triangle_ineq3)
  with assms have "\<bar>\<bar>y\<bar> * 10 ^ f - of_int \<bar>k\<bar>\<bar> < 1 / 2"
    by (simp add: abs_mult)
  then have "of_int \<bar>k\<bar> \<le> \<bar>y\<bar> * 10 ^ f + 1 / 2" and "\<bar>y\<bar> * 10 ^ f + 1 / 2 < of_int \<bar>k\<bar> + 1"
    by linarith+
  then have "\<lfloor>\<bar>y\<bar> * 10 ^ f + 1 / 2\<rfloor> = \<bar>k\<bar>"
    by (rule floor_unique)
  then show ?thesis by (simp add: toFixed_digits_def)
qed

text \<open>JavaScript rounds the quotient in \<open>satsToBtc\<close> to binary64 before \<open>toFixed\<close> reads it.
  For an amount below \<open>2^26\<close> coins the text is the one the exact quotient gives.\<close>

lemma satsToBtc_binary64:
  assumes "\<bar>s\<bar> < 6710886400000000"
    and "nearest_binary64 (of_int s / 100000000) y"
  shows "toFixed 8 (Num y) = satsToBtc s"
proof -
  let ?x = "of_int s / 100000000 :: rat"
  from assms(1) have "\<bar>s\<bar> \<le> 6710886399999999" by simp
  then have "(of_int \<bar>s\<bar> :: rat) \<le> 6710886399999999" by (simp only: of_int_le_numeral_iff)
  then have "\<bar>?x\<bar> \<le> 6710886399999999 / 100000000" by simp
  also have "\<dots> \<le> 2 ^ 26 - 1 / 2 ^ 27" by simp
  finally have small: "\<bar>?x\<bar> \<le> 2 ^ 26 - 1 / 2 ^ 27" .
  from nearest_binary64_close [OF assms(2) small] have "\<bar>?x - y\<bar> \<le> 1 / 2 ^ 28" .
  then have "\<bar>?x - y\<bar> * 10 ^ 8 \<le> 1 / 2 ^ 28 * 10 ^ 8"
    by (rule mult_right_mono) simp
  moreover have "\<bar>y * 10 ^ 8 - of_int s\<bar> = \<bar>?x - y\<bar> * 10 ^ 8"
  proof -
    have "y * 10 ^ 8 - of_int s = - ((?x - y) * 10 ^ 8)" by (simp add: algebra_simps)
    then show ?thesis by (simp only: abs_minus abs_mult) simp
  qed
  ultimately have near: "\<bar>y * 10 ^ 8 - of_int s\<bar> < 1 / 2" by simp
  have digits_y: "toFixed_digits 8 \<bar>y\<bar> = nat \<bar>s\<bar>"
    by (rule toFixed_digits_stable [OF near])
  have "\<bar>?x * 10 ^ 8 - of_int s\<bar> < 1 / 2" by simp
  then have digits_x: "toFixed_digits 8 \<bar>?x\<bar> = nat \<bar>s\<bar>"
    by (rule toFixed_digits_stable)
  have sign: "y < 0 \<longleftrightarrow> ?x < 0"
  proof (cases "s = 0")
    case True
    with assms(2) binary64_zero have "\<bar>0 - y\<bar> \<le> \<bar>0 - 0 :: rat\<bar>"
      unfolding nearest_binary64_def by force
    with True show ?thesis by simp
  next
    case False
    then have "1 \<le> s \<or> s \<le> - 1" by linarith
    then have "(1 :: rat) \<le> of_int s \<or> (of_int s :: rat) \<le> - 1"
      by (metis of_int_1 of_int_le_iff of_int_minus)
    with near have "(y * 10 ^ 8 < 0) \<longleftrightarrow> (of_int s :: rat) < 0" by linarith
    then show ?thesis by (simp add: mult_less_0_iff)
  qed
  show ?thesis
    unfolding satsToBtc_def toFixed.simps toFixed_finite_eval [of 8 y]
      toFixed_finite_eval [of 8 ?x] digits_y digits_x sign ..
qed

lemma binary64_minus:
  assumes "binary64 z"
  shows "binary64 (- z)"
proof -
  from assms obtain m :: int and a b :: nat
    where "z = of_int m * 2 ^ a / 2 ^ b" and "\<bar>m\<bar> < 2 ^ 53" and "a \<le> 971" and "b \<le> 1074"
    unfolding binary64_def by blast
  then have "- z = of_int (- m) * 2 ^ a / 2 ^ b \<and> \<bar>- m\<bar> < 2 ^ 53 \<and> a \<le> 971 \<and> b \<le> 1074"
    by simp
  then show ?thesis unfolding binary64_def by blast
qed

text \<open>In the normal range a number has a binary64 number within the fraction \<open>2^-53\<close> of it.\<close>

lemma binary64_relative_pos:
  assumes "1 / 2 ^ 1022 \<le> q" and "q < 2 ^ 53"
  shows "\<exists>z. binary64 z \<and> \<bar>q - z\<bar> \<le> q / 2 ^ 53"
proof -
  from assms(1) have q_pos: "0 < q"
    by (rule less_le_trans [rotated]) simp
  define P where "P b \<longleftrightarrow> 2 ^ 52 \<le> q * 2 ^ b" for b :: nat
  have "1 / 2 ^ 1022 * 2 ^ 1074 \<le> q * 2 ^ 1074"
    using assms(1) by (rule mult_right_mono) simp
  moreover have "(1 :: rat) / 2 ^ 1022 * 2 ^ 1074 = 2 ^ 52"
    by (simp add: power_diff [symmetric] field_simps)
  ultimately have P_top: "P 1074" by (simp add: P_def)
  define b where "b = (LEAST b. P b)"
  have Pb: "P b" unfolding b_def using P_top by (rule LeastI)
  have b_le: "b \<le> 1074" unfolding b_def using P_top by (rule Least_le)
  have lower: "2 ^ 52 \<le> q * 2 ^ b" using Pb by (simp add: P_def)
  have upper: "q * 2 ^ b < 2 ^ 53"
  proof (cases b)
    case 0
    with assms(2) show ?thesis by simp
  next
    case (Suc b')
    then have "b' < b" by simp
    then have "\<not> P b'" unfolding b_def by (rule not_less_Least)
    then have "q * 2 ^ b' < 2 ^ 52" by (simp add: P_def)
    then have "q * 2 ^ b' * 2 < 2 ^ 52 * 2" by (simp only: mult_less_cancel_right_pos zero_less_numeral)
    then show ?thesis by (simp add: Suc mult.assoc)
  qed
  define m where "m = \<lfloor>q * 2 ^ b + 1 / 2\<rfloor>"
  have lo: "of_int m \<le> q * 2 ^ b + 1 / 2" and hi: "q * 2 ^ b + 1 / 2 < of_int m + 1"
    unfolding m_def by linarith+
  have near: "\<bar>q * 2 ^ b - of_int m\<bar> \<le> 1 / 2" using lo hi by linarith
  from lo upper have "(of_int m :: rat) < 2 ^ 53 + 1 / 2" by linarith
  then have "(of_int m :: rat) < of_int (2 ^ 53 + 1)" by simp
  then have "m < 2 ^ 53 + 1" by (simp only: of_int_less_iff)
  then have m_up: "m \<le> 2 ^ 53" by simp
  from hi lower have "(2 ^ 52 :: rat) < of_int m + 1" by linarith
  then have "(of_int (2 ^ 52 - 1) :: rat) < of_int m" by simp
  then have "2 ^ 52 - 1 < m" by (simp only: of_int_less_iff)
  then have m_down: "2 ^ 52 \<le> m" by simp
  have bin: "binary64 (of_int m / 2 ^ b)"
  proof (cases "m = 2 ^ 53")
    case True
    have "binary64 (of_int (2 ^ 52) * 2 ^ 1 / 2 ^ b)"
      unfolding binary64_def
      by (rule exI [of _ "2 ^ 52 :: int"], rule exI [of _ "1 :: nat"], rule exI [of _ b])
        (use b_le in simp)
    then show ?thesis by (simp add: True)
  next
    case False
    with m_up have "m < 2 ^ 53" by simp
    with m_down have "\<bar>m\<bar> < 2 ^ 53" by simp
    then have "binary64 (of_int m * 2 ^ 0 / 2 ^ b)"
      unfolding binary64_def
      by (rule_tac x = m in exI, rule_tac x = "0 :: nat" in exI, rule_tac x = b in exI)
        (use b_le in simp)
    then show ?thesis by simp
  qed
  have "q - of_int m / 2 ^ b = (q * 2 ^ b - of_int m) / 2 ^ b"
    by (simp add: diff_divide_distrib)
  then have "\<bar>q - of_int m / 2 ^ b\<bar> = \<bar>q * 2 ^ b - of_int m\<bar> / 2 ^ b"
    by (simp only: abs_divide) simp
  also have "\<dots> \<le> (1 / 2) / 2 ^ b"
    using near by (rule divide_right_mono) simp
  also have "\<dots> = 2 ^ 52 / 2 ^ 53 / 2 ^ b" by simp
  also have "\<dots> \<le> q * 2 ^ b / 2 ^ 53 / 2 ^ b"
    using lower by (intro divide_right_mono) simp_all
  also have "\<dots> = q / 2 ^ 53" by simp
  finally have "\<bar>q - of_int m / 2 ^ b\<bar> \<le> q / 2 ^ 53" .
  with bin show ?thesis by blast
qed

lemma binary64_relative:
  assumes "1 / 2 ^ 1022 \<le> \<bar>q\<bar>" and "\<bar>q\<bar> < 2 ^ 53"
  shows "\<exists>z. binary64 z \<and> \<bar>q - z\<bar> \<le> \<bar>q\<bar> / 2 ^ 53"
proof (cases "0 \<le> q")
  case True
  with assms binary64_relative_pos [of q] show ?thesis by simp
next
  case False
  then have "\<bar>q\<bar> = - q" by simp
  with assms binary64_relative_pos [of "- q"] obtain z
    where "binary64 z" and "\<bar>- q - z\<bar> \<le> - q / 2 ^ 53"
    by auto
  then have "binary64 (- z)" and "\<bar>q - (- z)\<bar> \<le> \<bar>q\<bar> / 2 ^ 53"
    using \<open>\<bar>q\<bar> = - q\<close> by (simp_all add: binary64_minus abs_minus_commute add.commute)
  then show ?thesis by blast
qed

lemma nearest_binary64_relative:
  assumes "nearest_binary64 q y" and "1 / 2 ^ 1022 \<le> \<bar>q\<bar>" and "\<bar>q\<bar> < 2 ^ 53"
  shows "\<bar>q - y\<bar> \<le> \<bar>q\<bar> / 2 ^ 53"
proof -
  from binary64_relative [OF assms(2,3)] obtain z
    where "binary64 z" and "\<bar>q - z\<bar> \<le> \<bar>q\<bar> / 2 ^ 53"
    by blast
  with assms(1) show ?thesis unfolding nearest_binary64_def by force
qed

lemma nearest_binary64_zero: "nearest_binary64 0 y \<Longrightarrow> y = 0"
  using binary64_zero unfolding nearest_binary64_def by force

text \<open>Rounding to binary64 does not cross a binary64 number.\<close>

lemma nearest_binary64_le:
  assumes "nearest_binary64 x y" and "binary64 r" and "x \<le> r"
  shows "y \<le> r"
proof (rule ccontr)
  assume "\<not> y \<le> r"
  with assms(3) have "\<bar>x - r\<bar> < \<bar>x - y\<bar>" by linarith
  moreover from assms(1,2) have "\<bar>x - y\<bar> \<le> \<bar>x - r\<bar>"
    unfolding nearest_binary64_def by blast
  ultimately show False by simp
qed

lemma nearest_binary64_ge:
  assumes "nearest_binary64 x y" and "binary64 r" and "r \<le> x"
  shows "r \<le> y"
proof (rule ccontr)
  assume "\<not> r \<le> y"
  with assms(3) have "\<bar>x - r\<bar> < \<bar>x - y\<bar>" by linarith
  moreover from assms(1,2) have "\<bar>x - y\<bar> \<le> \<bar>x - r\<bar>"
    unfolding nearest_binary64_def by blast
  ultimately show False by simp
qed

lemma binary64_int:
  assumes "\<bar>k\<bar> < 2 ^ 53"
  shows "binary64 (of_int k)"
proof -
  have "of_int k = (of_int k :: rat) * 2 ^ 0 / 2 ^ 0" by simp
  with assms show ?thesis unfolding binary64_def by blast
qed

lemma binary64_int_minus_1024th:
  assumes "\<bar>k\<bar> < 2 ^ 43"
  shows "binary64 (of_int k - 1 / 2 ^ 10)"
proof -
  have "of_int k - 1 / 2 ^ 10 = (of_int (1024 * k - 1) :: rat) * 2 ^ 0 / 2 ^ 10" by simp
  moreover from assms have "\<bar>1024 * k - 1\<bar> < 2 ^ 53" by simp
  moreover have "(0 :: nat) \<le> 971" and "(10 :: nat) \<le> 1074" by simp_all
  ultimately show ?thesis unfolding binary64_def by blast
qed

text \<open>The recency test \<^verbatim>\<open>(Date.now() / 1000 - block_time) < 86400 * 30\<close> computed in
  binary64, the quotient rounded to \<open>y1\<close> and the difference to \<open>y2\<close>, has the outcome of the
  exact test.\<close>

lemma recency_test_binary64:
  assumes "\<bar>bt + 2592000\<bar> < 2 ^ 43"
    and "nearest_binary64 (of_int now / 1000) y1"
    and "nearest_binary64 (y1 - of_int bt) y2"
  shows "y2 < 86400 * 30 \<longleftrightarrow> (of_int now / 1000 - of_int bt :: rat) < 86400 * 30"
proof (cases "now < 1000 * (bt + 2592000)")
  case True
  then have "now \<le> 1000 * (bt + 2592000) - 1" by simp
  then have "(of_int now :: rat) \<le> of_int (1000 * (bt + 2592000) - 1)"
    by (simp only: of_int_le_iff)
  then have "(of_int now :: rat) / 1000 \<le> of_int (bt + 2592000) - 1 / 1000"
    by (simp add: field_simps)
  also have "\<dots> \<le> of_int (bt + 2592000) - 1 / 2 ^ 10" by simp
  finally have x1: "(of_int now :: rat) / 1000 \<le> of_int (bt + 2592000) - 1 / 2 ^ 10" .
  have "y1 \<le> of_int (bt + 2592000) - 1 / 2 ^ 10"
    by (rule nearest_binary64_le [OF assms(2) binary64_int_minus_1024th [OF assms(1)] x1])
  then have x2: "y1 - of_int bt \<le> of_int 2592000 - 1 / 2 ^ 10" by simp
  have r2: "binary64 (of_int 2592000 - 1 / 2 ^ 10)"
    by (rule binary64_int_minus_1024th) simp
  from nearest_binary64_le [OF assms(3) r2 x2] have "y2 < 86400 * 30" by simp
  moreover from True have "(of_int now :: rat) < of_int (1000 * (bt + 2592000))"
    by (simp only: of_int_less_iff)
  then have "(of_int now / 1000 - of_int bt :: rat) < 86400 * 30" by (simp add: field_simps)
  ultimately show ?thesis by simp
next
  case False
  then have "1000 * (bt + 2592000) \<le> now" by simp
  then have "(of_int (1000 * (bt + 2592000)) :: rat) \<le> of_int now"
    by (simp only: of_int_le_iff)
  then have le: "(of_int (bt + 2592000) :: rat) \<le> of_int now / 1000" by (simp add: field_simps)
  from assms(1) have "\<bar>bt + 2592000\<bar> < 2 ^ 53" by simp
  then have "binary64 (of_int (bt + 2592000))" by (rule binary64_int)
  from nearest_binary64_ge [OF assms(2) this le] have "of_int (bt + 2592000) \<le> y1" .
  then have x2: "of_int 2592000 \<le> y1 - of_int bt" by simp
  have r2: "binary64 (of_int 2592000)"
    by (rule binary64_int) simp
  from nearest_binary64_ge [OF assms(3) r2 x2] have "\<not> y2 < 86400 * 30" by simp
  moreover from le have "\<not> (of_int now / 1000 - of_int bt :: rat) < 86400 * 30" by simp
  ultimately show ?thesis by simp
qed

text \<open>A number close enough to a quotient of integers is rendered by \<open>toFixed\<close> as a
  nearest decimal of the quotient itself.\<close>

lemma toFixed_nearest_stable:
  assumes "0 < B" and "\<bar>y - of_int A / of_int B\<bar> * (2 * of_int B * 10 ^ f) < 1"
  shows "\<exists>n::int. decimal_value (toFixed_finite f y) = of_int n / 10 ^ f \<and>
           \<bar>of_int n - of_int A / of_int B * 10 ^ f\<bar> \<le> (1 / 2 :: rat)"
proof -
  let ?q = "of_int A / of_int B :: rat"
  from toFixed_finite_nearest [of f y] obtain n :: int
    where v: "decimal_value (toFixed_finite f y) = of_int n / 10 ^ f"
      and ny: "\<bar>of_int n - y * 10 ^ f\<bar> \<le> 1 / 2"
    by blast
  have B: "(0 :: rat) < of_int B" using assms(1) by simp
  have "\<bar>of_int n - ?q * 10 ^ f\<bar> \<le> 1 / 2"
  proof (rule ccontr)
    assume "\<not> \<bar>of_int n - ?q * 10 ^ f\<bar> \<le> 1 / 2"
    then have far: "1 / 2 < \<bar>of_int n - ?q * 10 ^ f\<bar>" by simp
    define D where "D = 2 * n * B - 2 * 10 ^ f * A"
    have D: "(of_int D :: rat) = 2 * of_int B * (of_int n - ?q * 10 ^ f)"
      using B by (simp add: D_def field_simps)
    have "\<bar>of_int D :: rat\<bar> = 2 * of_int B * \<bar>of_int n - ?q * 10 ^ f\<bar>"
      unfolding D using B by (simp add: abs_mult)
    with far B have "(of_int B :: rat) < \<bar>of_int D\<bar>"
      by (simp add: field_simps)
    then have "(of_int B :: rat) < of_int \<bar>D\<bar>" by simp
    then have "B < \<bar>D\<bar>" by (simp only: of_int_less_iff)
    then have "B + 1 \<le> \<bar>D\<bar>" by simp
    then have "(of_int (B + 1) :: rat) \<le> of_int \<bar>D\<bar>" by (simp only: of_int_le_iff)
    then have "(of_int B + 1 :: rat) \<le> 2 * of_int B * \<bar>of_int n - ?q * 10 ^ f\<bar>"
      using \<open>\<bar>of_int D :: rat\<bar> = 2 * of_int B * \<bar>of_int n - ?q * 10 ^ f\<bar>\<close> by simp
    moreover have "\<bar>of_int n - ?q * 10 ^ f\<bar> \<le> \<bar>of_int n - y * 10 ^ f\<bar> + \<bar>y - ?q\<bar> * 10 ^ f"
    proof -
      have "of_int n - ?q * 10 ^ f = (of_int n - y * 10 ^ f) + (y - ?q) * 10 ^ f"
        by (simp add: algebra_simps)
      then have "\<bar>of_int n - ?q * 10 ^ f\<bar> \<le> \<bar>of_int n - y * 10 ^ f\<bar> + \<bar>(y - ?q) * 10 ^ f\<bar>"
        by (simp only: abs_triangle_ineq)
      then show ?thesis by (simp add: abs_mult)
    qed
    ultimately have "(of_int B + 1 :: rat) \<le>
        2 * of_int B * (\<bar>of_int n - y * 10 ^ f\<bar> + \<bar>y - ?q\<bar> * 10 ^ f)"
      using B by (meson mult_left_mono order_trans less_imp_le zero_le_mult_iff zero_le_numeral)
    also have "\<dots> = 2 * of_int B * \<bar>of_int n - y * 10 ^ f\<bar> + \<bar>y - ?q\<bar> * (2 * of_int B * 10 ^ f)"
      by (simp add: algebra_simps)
    also have "\<dots> < 2 * of_int B * (1 / 2) + 1"
      using ny assms(2) B by (intro add_le_less_mono mult_left_mono) simp_all
    finally show False by simp
  qed
  with v show ?thesis by blast
qed

text \<open>The fee rate \<^verbatim>\<open>(tx.fee / vsize).toFixed(2)\<close> with the quotient rounded to binary64: for
  a fee below \<open>2^53 / 200\<close> sats the text still denotes a nearest hundredth of the exact
  quotient.\<close>

lemma fee_rate_binary64:
  assumes "0 < v" and "v < 2 ^ 53" and "200 * \<bar>F\<bar> < 2 ^ 53"
    and "nearest_binary64 (of_int F / of_int v) y"
  shows "length (frac_part (toFixed 2 (Num y))) = 2 \<and>
         (\<exists>n::int. decimal_value (toFixed 2 (Num y)) = of_int n / 100 \<and>
            \<bar>of_int n - 100 * (of_int F / of_int v)\<bar> \<le> (1 / 2 :: rat))"
proof -
  let ?q = "of_int F / of_int v :: rat"
  have v: "(0 :: rat) < of_int v" using assms(1) by simp
  have close: "\<bar>y - ?q\<bar> * (2 * of_int v * 10 ^ 2) < 1"
  proof (cases "F = 0")
    case True
    with assms(4) have "y = 0" by (simp add: nearest_binary64_zero)
    with True show ?thesis by simp
  next
    case False
    then have "1 \<le> \<bar>F\<bar>" by simp
    then have "(of_int 1 :: rat) \<le> of_int \<bar>F\<bar>" by (simp only: of_int_le_iff)
    then have F1: "(1 :: rat) \<le> of_int \<bar>F\<bar>" by simp
    have q: "\<bar>?q\<bar> = of_int \<bar>F\<bar> / of_int v" using v by (simp add: abs_divide)
    from assms(2) have "(of_int v :: rat) < of_int (2 ^ 53)" by (simp only: of_int_less_iff)
    then have v53: "(of_int v :: rat) < 2 ^ 53" by simp
    have "1 / 2 ^ 53 \<le> 1 / (of_int v :: rat)"
      using v v53 by (intro divide_left_mono) simp_all
    also have "\<dots> \<le> of_int \<bar>F\<bar> / of_int v"
      using F1 v by (intro divide_right_mono) simp_all
    finally have "1 / 2 ^ 53 \<le> \<bar>?q\<bar>" unfolding q .
    moreover have "(1 :: rat) / 2 ^ 1022 \<le> 1 / 2 ^ 53"
      by (intro divide_left_mono power_increasing) simp_all
    ultimately have lower: "1 / 2 ^ 1022 \<le> \<bar>?q\<bar>" by (rule order_trans [rotated])
    from assms(3) have "\<bar>F\<bar> < 2 ^ 53" by simp
    then have "(of_int \<bar>F\<bar> :: rat) < of_int (2 ^ 53)" by (simp only: of_int_less_iff)
    then have F53: "(of_int \<bar>F\<bar> :: rat) < 2 ^ 53" by simp
    from assms(1) have "1 \<le> v" by simp
    then have "(of_int 1 :: rat) \<le> of_int v" by (simp only: of_int_le_iff)
    then have "(1 :: rat) \<le> of_int v" by simp
    then have "of_int \<bar>F\<bar> / of_int v \<le> (of_int \<bar>F\<bar> :: rat) / 1"
      using F1 by (intro divide_left_mono) simp_all
    with F53 have upper: "\<bar>?q\<bar> < 2 ^ 53" unfolding q by simp
    from nearest_binary64_relative [OF assms(4) lower upper]
    have "\<bar>y - ?q\<bar> \<le> of_int \<bar>F\<bar> / of_int v / 2 ^ 53"
      unfolding q by (simp add: abs_minus_commute)
    then have "\<bar>y - ?q\<bar> * (2 * of_int v * 10 ^ 2) \<le>
        of_int \<bar>F\<bar> / of_int v / 2 ^ 53 * (2 * of_int v * 10 ^ 2)"
      using v by (intro mult_right_mono) simp_all
    also have "\<dots> = of_int (200 * \<bar>F\<bar>) / 2 ^ 53"
      using v by simp
    also have "\<dots> < 1"
    proof -
      from assms(3) have "(of_int (200 * \<bar>F\<bar>) :: rat) < of_int (2 ^ 53)"
        by (simp only: of_int_less_iff)
      then show ?thesis by simp
    qed
    finally show ?thesis .
  qed
  from toFixed_nearest_stable [OF assms(1) close] obtain n :: int
    where "decimal_value (toFixed_finite 2 y) = of_int n / 10 ^ 2"
      and "\<bar>of_int n - ?q * 10 ^ 2\<bar> \<le> 1 / 2"
    by blast
  then have "decimal_value (toFixed 2 (Num y)) = of_int n / 100 \<and>
      \<bar>of_int n - 100 * ?q\<bar> \<le> 1 / 2"
    by (simp add: mult.commute)
  then show ?thesis by (auto simp: frac_part_toFixed_finite)
qed

text \<open>The average block time \<^verbatim>\<open>(delta / k / 60).toFixed(1)\<close> with both quotients rounded
  to binary64, for \<open>k\<close> between 1 and 5 intervals and a time span below \<open>2^53 / 60\<close>
  seconds: the text still denotes a nearest tenth of the exact value.\<close>

lemma average_block_time_binary64:
  assumes "1 \<le> k" and "k \<le> 5" and "60 * \<bar>delta\<bar> < 2 ^ 53"
    and "nearest_binary64 (of_int delta / of_int k) y1"
    and "nearest_binary64 (y1 / 60) y2"
  shows "length (frac_part (toFixed 1 (Num y2))) = 1 \<and>
         (\<exists>n::int. decimal_value (toFixed 1 (Num y2)) = of_int n / 10 \<and>
            \<bar>of_int n - 10 * (of_int delta / of_int k / 60)\<bar> \<le> (1 / 2 :: rat))"
proof -
  let ?x1 = "of_int delta / of_int k :: rat"
  let ?q = "of_int delta / of_int (60 * k) :: rat"
  from assms(1) have "(of_int 1 :: rat) \<le> of_int k" by (simp only: of_int_le_iff)
  then have k1: "(1 :: rat) \<le> of_int k" by simp
  from assms(2) have "(of_int k :: rat) \<le> of_int 5" by (simp only: of_int_le_iff)
  then have k5: "(of_int k :: rat) \<le> 5" by simp
  have B: "0 < 60 * k" using assms(1) by simp
  have q: "?q = ?x1 / 60" by simp
  have close: "\<bar>y2 - ?q\<bar> * (2 * of_int (60 * k) * 10 ^ 1) < 1"
  proof (cases "delta = 0")
    case True
    with assms(4) have "y1 = 0" by (simp add: nearest_binary64_zero)
    with assms(5) have "y2 = 0" by (simp add: nearest_binary64_zero)
    with True show ?thesis by simp
  next
    case False
    define a :: rat where "a = of_int \<bar>delta\<bar> / of_int k"
    have a: "\<bar>?x1\<bar> = a" using k1 by (simp add: a_def abs_divide)
    have ak: "a * of_int k = of_int \<bar>delta\<bar>" using k1 by (simp add: a_def)
    from False have "1 \<le> \<bar>delta\<bar>" by simp
    then have "(of_int 1 :: rat) \<le> of_int \<bar>delta\<bar>" by (simp only: of_int_le_iff)
    then have d1: "(1 :: rat) \<le> of_int \<bar>delta\<bar>" by simp
    from assms(3) have "(of_int (60 * \<bar>delta\<bar>) :: rat) < of_int (2 ^ 53)"
      by (simp only: of_int_less_iff)
    then have d53: "60 * (of_int \<bar>delta\<bar> :: rat) < 2 ^ 53" by simp
    have "1 / 5 \<le> 1 / (of_int k :: rat)"
      using k1 k5 by (intro divide_left_mono) simp_all
    also have "\<dots> \<le> a"
      unfolding a_def using d1 k1 by (intro divide_right_mono) simp_all
    finally have a_lower: "1 / 5 \<le> a" .
    have "a \<le> of_int \<bar>delta\<bar> / 1"
      unfolding a_def using d1 k1 by (intro divide_left_mono) simp_all
    then have a_upper: "60 * a < 2 ^ 53" using d53 by simp
    have tiny: "(1 :: rat) / 2 ^ 1022 \<le> 1 / 600"
      by (intro divide_left_mono) simp_all
    have range1: "1 / 2 ^ 1022 \<le> \<bar>?x1\<bar>" "\<bar>?x1\<bar> < 2 ^ 53"
      unfolding a using a_lower a_upper tiny by linarith+
    from nearest_binary64_relative [OF assms(4) range1]
    have e1: "\<bar>?x1 - y1\<bar> \<le> a / 2 ^ 53" unfolding a .
    have "\<bar>y1\<bar> \<le> \<bar>?x1\<bar> + \<bar>?x1 - y1\<bar>" and "\<bar>?x1\<bar> \<le> \<bar>y1\<bar> + \<bar>?x1 - y1\<bar>"
      by linarith+
    with e1 have y1_upper: "\<bar>y1\<bar> \<le> 2 * a" and y1_lower: "a / 2 \<le> \<bar>y1\<bar>"
      unfolding a using a_lower by simp_all
    have x2: "\<bar>y1 / 60\<bar> = \<bar>y1\<bar> / 60" by simp
    have range2: "1 / 2 ^ 1022 \<le> \<bar>y1 / 60\<bar>" "\<bar>y1 / 60\<bar> < 2 ^ 53"
      unfolding x2 using y1_upper y1_lower a_lower a_upper tiny by linarith+
    from nearest_binary64_relative [OF assms(5) range2]
    have "\<bar>y1 / 60 - y2\<bar> \<le> \<bar>y1\<bar> / 60 / 2 ^ 53" unfolding x2 .
    with y1_upper have e2: "\<bar>y1 / 60 - y2\<bar> \<le> 2 * a / 60 / 2 ^ 53" by simp
    have "y1 / 60 - ?q = (y1 - ?x1) / 60" unfolding q by (simp add: diff_divide_distrib)
    then have "\<bar>y1 / 60 - ?q\<bar> = \<bar>?x1 - y1\<bar> / 60"
      by (simp only: abs_divide abs_minus_commute abs_numeral)
    with e1 have e3: "\<bar>y1 / 60 - ?q\<bar> \<le> a / 2 ^ 53 / 60" by simp
    have "\<bar>y2 - ?q\<bar> \<le> \<bar>y1 / 60 - y2\<bar> + \<bar>y1 / 60 - ?q\<bar>" by linarith
    with e2 e3 have total: "\<bar>y2 - ?q\<bar> \<le> a / 20 / 2 ^ 53" by simp
    have "\<bar>y2 - ?q\<bar> * (2 * of_int (60 * k) * 10 ^ 1) \<le>
        a / 20 / 2 ^ 53 * (2 * of_int (60 * k) * 10 ^ 1)"
      using total k1 by (intro mult_right_mono) simp_all
    also have "\<dots> = 60 * (a * of_int k) / 2 ^ 53" by simp
    also have "\<dots> < 1" unfolding ak using d53 by simp
    finally show ?thesis .
  qed
  from toFixed_nearest_stable [OF B close] obtain n :: int
    where "decimal_value (toFixed_finite 1 y2) = of_int n / 10 ^ 1"
      and "\<bar>of_int n - ?q * 10 ^ 1\<bar> \<le> 1 / 2"
    by blast
  then have "decimal_value (toFixed 1 (Num y2)) = of_int n / 10 \<and>
      \<bar>of_int n - 10 * (of_int delta / of_int k / 60)\<bar> \<le> (1 / 2 :: rat)"
    by (simp add: mult.commute)
  then show ?thesis by (auto simp: frac_part_toFixed_finite)
qed

text \<open>The dollar value \<^verbatim>\<open>((chainBalance / 100_000_000) * btcPrice).toFixed(2)\<close> with the
  quotient rounded to \<open>y1\<close> and the product to \<open>y2\<close>, for a balance below \<open>2^26\<close> coins and a price
  from 1 to \<open>2^26\<close> dollars: the text has two decimals and lies within half a cent and the
  fraction \<open>2^-51\<close> of the exact product. It need not be the text of the exact product: for
  3000 sats at 36500 dollars the exact product is 1.095, rendered \<^verbatim>\<open>1.10\<close>, and the rounded
  product lies below it, rendered \<^verbatim>\<open>1.09\<close>.\<close>

lemma dollar_value_binary64:
  assumes "\<bar>b\<bar> < 6710886400000000" and "1 \<le> p" and "p < 2 ^ 26"
    and "nearest_binary64 (of_int b / 100000000) y1"
    and "nearest_binary64 (y1 * p) y2"
  shows "length (frac_part (toFixed 2 (Num y2))) = 2 \<and>
         \<bar>decimal_value (toFixed 2 (Num y2)) - of_int b / 100000000 * p\<bar>
           \<le> 1 / 200 + \<bar>of_int b / 100000000 * p\<bar> / 2 ^ 51"
proof -
  let ?x1 = "of_int b / 100000000 :: rat"
  define T where "T = \<bar>?x1\<bar> * p"
  have p0: "0 \<le> p" using assms(2) by simp
  have T0: "0 \<le> T" unfolding T_def using p0 by simp
  have T: "\<bar>?x1 * p\<bar> = T" unfolding T_def using p0 by (simp add: abs_mult)
  have err: "\<bar>y2 - ?x1 * p\<bar> \<le> T / 2 ^ 51"
  proof (cases "b = 0")
    case True
    with assms(4) have "y1 = 0" by (simp add: nearest_binary64_zero)
    with assms(5) have "y2 = 0" by (simp add: nearest_binary64_zero)
    with True T0 show ?thesis by simp
  next
    case False
    then have "1 \<le> \<bar>b\<bar>" by simp
    then have "(of_int 1 :: rat) \<le> of_int \<bar>b\<bar>" by (simp only: of_int_le_iff)
    then have b1: "(1 :: rat) \<le> of_int \<bar>b\<bar>" by simp
    from assms(1) have "(of_int \<bar>b\<bar> :: rat) < of_int 6710886400000000"
      by (simp only: of_int_less_iff)
    then have b2: "(of_int \<bar>b\<bar> :: rat) < 6710886400000000" by simp
    have x1: "\<bar>?x1\<bar> = of_int \<bar>b\<bar> / 100000000" by simp
    have low1: "1 / 100000000 \<le> \<bar>?x1\<bar>" unfolding x1 using b1 by simp
    have up1: "\<bar>?x1\<bar> < 2 ^ 26" unfolding x1 using b2 by simp
    have tiny: "(1 :: rat) / 2 ^ 1022 \<le> 1 / 2 ^ 28"
      by (intro divide_left_mono power_increasing) simp_all
    have "(1 :: rat) / 2 ^ 28 \<le> 1 / 100000000" by simp
    with tiny low1 have lower1: "1 / 2 ^ 1022 \<le> \<bar>?x1\<bar>" by linarith
    from up1 have upper1: "\<bar>?x1\<bar> < 2 ^ 53" by simp
    from nearest_binary64_relative [OF assms(4) lower1 upper1]
    have r1: "\<bar>?x1 - y1\<bar> \<le> \<bar>?x1\<bar> / 2 ^ 53" .
    then have y1_up: "\<bar>y1\<bar> \<le> \<bar>?x1\<bar> + \<bar>?x1\<bar> / 2 ^ 53"
      and y1_low: "\<bar>?x1\<bar> - \<bar>?x1\<bar> / 2 ^ 53 \<le> \<bar>y1\<bar>"
      by linarith+
    have "\<bar>y1\<bar> * p \<le> (\<bar>?x1\<bar> + \<bar>?x1\<bar> / 2 ^ 53) * p"
      using y1_up p0 by (rule mult_right_mono)
    also have "\<dots> = T + T / 2 ^ 53" unfolding T_def by (simp add: algebra_simps)
    finally have yp_up: "\<bar>y1\<bar> * p \<le> T + T / 2 ^ 53" .
    have "\<bar>?x1 - y1\<bar> * p \<le> \<bar>?x1\<bar> / 2 ^ 53 * p"
      using r1 p0 by (rule mult_right_mono)
    also have "\<dots> = T / 2 ^ 53" unfolding T_def by simp
    finally have e1: "\<bar>?x1 - y1\<bar> * p \<le> T / 2 ^ 53" .
    have "?x1 * p - y1 * p = (?x1 - y1) * p" by (simp only: left_diff_distrib)
    then have "\<bar>?x1 * p - y1 * p\<bar> = \<bar>?x1 - y1\<bar> * \<bar>p\<bar>" by (simp only: abs_mult)
    with p0 have "\<bar>?x1 * p - y1 * p\<bar> = \<bar>?x1 - y1\<bar> * p" by (simp only: abs_of_nonneg)
    with e1 have e1': "\<bar>?x1 * p - y1 * p\<bar> \<le> T / 2 ^ 53" by simp
    have yp: "\<bar>y1 * p\<bar> = \<bar>y1\<bar> * p" using p0 by (simp add: abs_mult)
    have "1 / 2 ^ 28 \<le> \<bar>?x1\<bar> - \<bar>?x1\<bar> / 2 ^ 53" using low1 by simp
    with y1_low have "1 / 2 ^ 28 \<le> \<bar>y1\<bar>" by linarith
    then have "1 / 2 ^ 28 * 1 \<le> \<bar>y1\<bar> * p"
      using assms(2) by (intro mult_mono) simp_all
    with tiny have lower2: "1 / 2 ^ 1022 \<le> \<bar>y1 * p\<bar>" unfolding yp by simp
    from y1_up up1 have "\<bar>y1\<bar> < 2 ^ 27" by simp
    then have "\<bar>y1\<bar> * p < 2 ^ 27 * 2 ^ 26"
      using assms(3) p0 by (intro mult_strict_mono) simp_all
    then have upper2: "\<bar>y1 * p\<bar> < 2 ^ 53" unfolding yp by simp
    from nearest_binary64_relative [OF assms(5) lower2 upper2]
    have "\<bar>y1 * p - y2\<bar> \<le> \<bar>y1\<bar> * p / 2 ^ 53" unfolding yp .
    also have "\<dots> \<le> (T + T / 2 ^ 53) / 2 ^ 53"
      using yp_up by (intro divide_right_mono) simp_all
    finally have e2: "\<bar>y1 * p - y2\<bar> \<le> (T + T / 2 ^ 53) / 2 ^ 53" .
    have "\<bar>y2 - ?x1 * p\<bar> \<le> \<bar>y1 * p - y2\<bar> + \<bar>?x1 * p - y1 * p\<bar>" by linarith
    also have "\<dots> \<le> (T + T / 2 ^ 53) / 2 ^ 53 + T / 2 ^ 53"
      using e2 e1' by (rule add_mono)
    also have "\<dots> \<le> T / 2 ^ 51" using T0 by simp
    finally show ?thesis .
  qed
  from toFixed_finite_nearest [of 2 y2] obtain n :: int
    where v: "decimal_value (toFixed_finite 2 y2) = of_int n / 10 ^ 2"
      and n: "\<bar>of_int n - y2 * 10 ^ 2\<bar> \<le> 1 / 2"
    by blast
  from n have "\<bar>of_int n / 100 - y2\<bar> \<le> 1 / 200" by (simp add: abs_le_iff field_simps)
  with err have "\<bar>of_int n / 100 - ?x1 * p\<bar> \<le> 1 / 200 + T / 2 ^ 51" by linarith
  with v show ?thesis unfolding T [symmetric] by (simp add: frac_part_toFixed_finite)
qed

end
